theory Spec2Isabelle
  imports Complex_Main
begin

section \<open>Python arithmetic used by the metric engine\<close>

text \<open>
  Python floats are modelled as exact rationals: \<open>/\<close> is exact division and the two
  conversions below are the exact versions of the built-ins \<open>round\<close> (ties go to the
  even neighbour) and \<open>int\<close> (truncation toward zero). Floating-point representation
  error is outside the model.
\<close>

definition py_round :: "rat \<Rightarrow> int" where
  "py_round x =
     (let f = \<lfloor>x\<rfloor>; d = x - of_int f
      in if d < 1 / 2 then f
         else if 1 / 2 < d then f + 1
         else if even f then f else f + 1)"

definition py_round1 :: "rat \<Rightarrow> rat" where
  "py_round1 x = of_int (py_round (x * 10)) / 10"

definition py_int :: "rat \<Rightarrow> int" where
  "py_int x = (if 0 \<le> x then \<lfloor>x\<rfloor> else \<lceil>x\<rceil>)"

section \<open>Metric catalogue (MetricManager.py)\<close>

datatype MetricSource =
    SYSTEM_UTILIZATION | DISK_IO_METRICS | DATABASE_STATS | BGWRITER_STATS
  | CONNECTION_STATS | PGBOUNCER_POOLS | PGBOUNCER_STATS | NONE

datatype ConnectionSource =
    postgresql | pgbouncer | rds | aurora | cloud_sql | alloydb | azure | cosmos_citus
  | supabase | neon | aiven | crunchy_bridge | digitalocean | heroku | timescale
  | railway | render | fly

definition all_pg_sources :: "ConnectionSource list" where
  "all_pg_sources =
     [postgresql, rds, aurora, cloud_sql, alloydb, azure, cosmos_citus, supabase, neon,
      aiven, crunchy_bridge, digitalocean, heroku, timescale, railway, render, fly]"

text \<open>
  \<open>MetricData\<close>: the fields the engine reads and writes. The deque \<open>values\<close> is the
  list \<open>vals\<close> (oldest first); label, colour and the display switches are left out.
\<close>

record MetricData =
  save_history :: bool
  per_second_calculation :: bool
  last_value :: "int option"
  vals :: "int list"

definition mk_MetricData :: "bool \<Rightarrow> bool \<Rightarrow> MetricData" where
  "mk_MetricData hist per_sec =
     \<lparr>save_history = hist, per_second_calculation = per_sec, last_value = None, vals = []\<rparr>"

text \<open>
  One metric instance (\<open>SystemCPUMetrics\<close>, \<open>PgTransactionMetrics\<close>, ...): the names of
  its \<open>MetricData\<close> attributes in declaration order, its \<open>metric_source\<close> and its
  \<open>connection_source\<close> list. The \<open>MetricData\<close> objects themselves are shared between
  \<open>metrics\<close> and the two lookup tables, so they live in a store keyed by
  (instance name, attribute name) and the tables hold the keys.
\<close>

type_synonym metric_ref = "string \<times> string"

record MetricInstance =
  metric_attrs :: "string list"
  metric_source :: MetricSource
  connection_source :: "ConnectionSource list"

definition system_sources :: "ConnectionSource list" where
  "system_sources = [postgresql, rds, pgbouncer]"

text \<open>The \<open>MetricInstances\<close> built by \<open>reset\<close>, in field order.\<close>

definition initial_metrics :: "(string \<times> MetricInstance) list" where
  "initial_metrics =
   [(''system_cpu'',
       \<lparr>metric_attrs = [''CPU_Percent''],
        metric_source = SYSTEM_UTILIZATION, connection_source = system_sources\<rparr>),
    (''system_memory'',
       \<lparr>metric_attrs = [''Memory_Total'', ''Memory_Used''],
        metric_source = SYSTEM_UTILIZATION, connection_source = system_sources\<rparr>),
    (''system_disk_io'',
       \<lparr>metric_attrs = [''Disk_Read'', ''Disk_Write''],
        metric_source = SYSTEM_UTILIZATION, connection_source = system_sources\<rparr>),
    (''system_network'',
       \<lparr>metric_attrs = [''Network_Down'', ''Network_Up''],
        metric_source = SYSTEM_UTILIZATION, connection_source = system_sources\<rparr>),
    (''pg_transactions'',
       \<lparr>metric_attrs = [''xact_commit'', ''xact_rollback''],
        metric_source = DATABASE_STATS, connection_source = all_pg_sources\<rparr>),
    (''pg_tuples'',
       \<lparr>metric_attrs = [''tup_fetched'', ''tup_inserted'', ''tup_updated'', ''tup_deleted''],
        metric_source = DATABASE_STATS, connection_source = all_pg_sources\<rparr>),
    (''pg_block_io'',
       \<lparr>metric_attrs = [''blks_hit'', ''blks_read''],
        metric_source = DATABASE_STATS, connection_source = all_pg_sources\<rparr>),
    (''pg_cache_hit_ratio'',
       \<lparr>metric_attrs = [''cache_hit_ratio''],
        metric_source = NONE, connection_source = all_pg_sources\<rparr>),
    (''pg_connections'',
       \<lparr>metric_attrs = [''active'', ''idle'', ''idle_in_transaction''],
        metric_source = CONNECTION_STATS, connection_source = all_pg_sources\<rparr>),
    (''pg_checkpoints'',
       \<lparr>metric_attrs = [''checkpoints_timed'', ''checkpoints_req'', ''buffers_checkpoint''],
        metric_source = BGWRITER_STATS, connection_source = all_pg_sources\<rparr>),
    (''pg_temp_files'',
       \<lparr>metric_attrs = [''temp_files'', ''temp_bytes''],
        metric_source = DATABASE_STATS, connection_source = all_pg_sources\<rparr>),
    (''replication_lag'',
       \<lparr>metric_attrs = [''lag''],
        metric_source = NONE, connection_source = [postgresql]\<rparr>),
    (''pgbouncer_connections'',
       \<lparr>metric_attrs = [''cl_active'', ''cl_waiting'', ''sv_active'', ''sv_idle''],
        metric_source = PGBOUNCER_POOLS, connection_source = [pgbouncer]\<rparr>),
    (''pgbouncer_traffic'',
       \<lparr>metric_attrs = [''xact_count'', ''query_count'', ''bytes_received'', ''bytes_sent''],
        metric_source = PGBOUNCER_STATS, connection_source = [pgbouncer]\<rparr>)]"

text \<open>
  The constructor arguments \<open>reset\<close> passes: every \<open>MetricData\<close> keeps the defaults
  \<open>save_history=True\<close>, \<open>per_second_calculation=True\<close> except the ones listed here.
\<close>

definition no_history_metrics :: "metric_ref list" where
  "no_history_metrics = [(''system_memory'', ''Memory_Total'')]"

definition gauge_metrics :: "metric_ref list" where
  "gauge_metrics =
     [(''system_cpu'', ''CPU_Percent''),
      (''system_memory'', ''Memory_Total''), (''system_memory'', ''Memory_Used''),
      (''pg_cache_hit_ratio'', ''cache_hit_ratio''),
      (''pg_connections'', ''active''), (''pg_connections'', ''idle''),
      (''pg_connections'', ''idle_in_transaction''),
      (''replication_lag'', ''lag''),
      (''pgbouncer_connections'', ''cl_active''), (''pgbouncer_connections'', ''cl_waiting''),
      (''pgbouncer_connections'', ''sv_active''), (''pgbouncer_connections'', ''sv_idle'')]"

definition initial_MetricData :: "metric_ref \<Rightarrow> MetricData" where
  "initial_MetricData r =
     mk_MetricData (r \<notin> set no_history_metrics) (r \<notin> set gauge_metrics)"

section \<open>MetricManager state\<close>

text \<open>
  Instants (\<open>datetime\<close> objects) are seconds on a common time line. The clock stores
  formatted strings; \<open>strftime\<close> and \<open>strptime\<close> with the format
  \<open>%d/%m/%y %H:%M:%S\<close> are parameters of the operations that call them, \<open>strptime\<close>
  returning \<open>None\<close> where Python raises \<open>ValueError\<close>.
\<close>

type_synonym datetime = int

type_synonym raw_data = "string \<rightharpoonup> int"

type_synonym processing_entry = "string \<times> metric_ref \<times> ConnectionSource list"

record MetricManager =
  mm_connection_source :: ConnectionSource
  replay_file :: "string option"
  daemon_mode :: bool
  worker_start_time :: "datetime option"
  system_utilization :: raw_data
  disk_io_metrics :: raw_data
  replication_status :: raw_data
  database_stats :: raw_data
  bgwriter_stats :: raw_data
  connection_stats :: raw_data
  pgbouncer_pools :: raw_data
  pgbouncer_stats :: raw_data
  initialized :: bool
  polling_latency :: rat
  datetimes :: "string list"
  metrics :: "(string \<times> MetricInstance) list"
  store :: "metric_ref \<Rightarrow> MetricData"
  source_to_metrics_processing :: "(MetricSource \<times> processing_entry list) list"
  all_metrics_data_history :: "metric_ref list"

text \<open>Truth value of an optional string (\<open>None\<close> and the empty string are false).\<close>

definition truthy :: "string option \<Rightarrow> bool" where
  "truthy f = (case f of None \<Rightarrow> False | Some x \<Rightarrow> x \<noteq> [])"

text \<open>\<open>d.get(k, 0)\<close>.\<close>

definition get0 :: "raw_data \<Rightarrow> string \<Rightarrow> int" where
  "get0 d k = (case d k of None \<Rightarrow> 0 | Some v \<Rightarrow> v)"

definition upd_metric :: "metric_ref \<Rightarrow> (MetricData \<Rightarrow> MetricData) \<Rightarrow> MetricManager \<Rightarrow> MetricManager" where
  "upd_metric r f s = s\<lparr>store := (store s)(r := f (store s r))\<rparr>"

subsection \<open>reset: the lookup tables\<close>

text \<open>\<open>self._source_to_metrics_processing[source].append(e)\<close> on a \<open>defaultdict(list)\<close>.\<close>

fun dd_append :: "(MetricSource \<times> processing_entry list) list \<Rightarrow> MetricSource \<Rightarrow> processing_entry
                  \<Rightarrow> (MetricSource \<times> processing_entry list) list" where
  "dd_append [] src e = [(src, [e])]"
| "dd_append ((k, es) # t) src e =
     (if k = src then (k, es @ [e]) # t else (k, es) # dd_append t src e)"

fun build_attrs :: "(metric_ref \<Rightarrow> MetricData) \<Rightarrow> string \<Rightarrow> MetricInstance \<Rightarrow> string list
      \<Rightarrow> (MetricSource \<times> processing_entry list) list \<times> metric_ref list
      \<Rightarrow> (MetricSource \<times> processing_entry list) list \<times> metric_ref list" where
  "build_attrs st iname inst [] acc = acc"
| "build_attrs st iname inst (attr_name # rest) (tbl, hist) =
     (let hist' = (if save_history (st (iname, attr_name)) then hist @ [(iname, attr_name)] else hist);
          tbl' = (if metric_source inst \<noteq> NONE
                  then dd_append tbl (metric_source inst)
                         (attr_name, (iname, attr_name), connection_source inst)
                  else tbl)
      in build_attrs st iname inst rest (tbl', hist'))"

fun build_tables :: "(metric_ref \<Rightarrow> MetricData) \<Rightarrow> (string \<times> MetricInstance) list
      \<Rightarrow> (MetricSource \<times> processing_entry list) list \<times> metric_ref list
      \<Rightarrow> (MetricSource \<times> processing_entry list) list \<times> metric_ref list" where
  "build_tables st [] acc = acc"
| "build_tables st ((iname, inst) # rest) acc =
     build_tables st rest (build_attrs st iname inst (metric_attrs inst) acc)"

definition reset :: "MetricManager \<Rightarrow> MetricManager" where
  "reset s =
     (let tabs = build_tables initial_MetricData initial_metrics ([], [])
      in s\<lparr>initialized := False, polling_latency := 0, datetimes := [],
            system_utilization := Map.empty, disk_io_metrics := Map.empty,
            replication_status := Map.empty, database_stats := Map.empty,
            bgwriter_stats := Map.empty, connection_stats := Map.empty,
            pgbouncer_pools := Map.empty, pgbouncer_stats := Map.empty,
            metrics := initial_metrics, store := initial_MetricData,
            source_to_metrics_processing := fst tabs,
            all_metrics_data_history := snd tabs\<rparr>)"

text \<open>\<open>MetricManager.__init__\<close>.\<close>

definition MetricManager_init :: "string option \<Rightarrow> bool \<Rightarrow> MetricManager" where
  "MetricManager_init rf dm =
     reset \<lparr>mm_connection_source = postgresql, replay_file = rf, daemon_mode = dm,
            worker_start_time = None,
            system_utilization = Map.empty, disk_io_metrics = Map.empty,
            replication_status = Map.empty, database_stats = Map.empty,
            bgwriter_stats = Map.empty, connection_stats = Map.empty,
            pgbouncer_pools = Map.empty, pgbouncer_stats = Map.empty,
            initialized = False, polling_latency = 0, datetimes = [],
            metrics = [], store = initial_MetricData,
            source_to_metrics_processing = [], all_metrics_data_history = []\<rparr>"

subsection \<open>Ingestion\<close>

definition add_metric :: "metric_ref \<Rightarrow> int \<Rightarrow> MetricManager \<Rightarrow> MetricManager" where
  "add_metric r v s =
     (if initialized s then
        (if save_history (store s r) then upd_metric r (\<lambda>m. m\<lparr>vals := vals m @ [v]\<rparr>) s
         else if vals (store s r) \<noteq> [] then upd_metric r (\<lambda>m. m\<lparr>vals := (vals m)[0 := v]\<rparr>) s
         else upd_metric r (\<lambda>m. m\<lparr>vals := vals m @ [v]\<rparr>) s)
      else s)"

definition add_metric_datetime :: "(datetime \<Rightarrow> string) \<Rightarrow> MetricManager \<Rightarrow> MetricManager" where
  "add_metric_datetime strftime s =
     (case worker_start_time s of
        Some t \<Rightarrow> if initialized s \<and> \<not> truthy (replay_file s)
                  then s\<lparr>datetimes := datetimes s @ [strftime t]\<rparr> else s
      | None \<Rightarrow> s)"

definition get_metric_source_data :: "MetricManager \<Rightarrow> MetricSource \<Rightarrow> raw_data option" where
  "get_metric_source_data s src =
     (case src of
        SYSTEM_UTILIZATION \<Rightarrow> Some (system_utilization s)
      | DISK_IO_METRICS \<Rightarrow> Some (disk_io_metrics s)
      | DATABASE_STATS \<Rightarrow> Some (database_stats s)
      | BGWRITER_STATS \<Rightarrow> Some (bgwriter_stats s)
      | CONNECTION_STATS \<Rightarrow> Some (connection_stats s)
      | PGBOUNCER_POOLS \<Rightarrow> Some (pgbouncer_pools s)
      | PGBOUNCER_STATS \<Rightarrow> Some (pgbouncer_stats s)
      | NONE \<Rightarrow> None)"

text \<open>\<open>list(metric_data.values)[-3:]\<close>.\<close>

definition last3 :: "int list \<Rightarrow> int list" where
  "last3 xs = drop (length xs - 3) xs"

text \<open>
  The body of the inner loop of \<open>update_metrics_per_second_values\<close> for one
  \<open>(metric_name, metric_data, conn_source)\<close> tuple.
\<close>

definition per_second_step :: "raw_data \<Rightarrow> processing_entry \<Rightarrow> MetricManager \<Rightarrow> MetricManager" where
  "per_second_step metric_source_data e s =
     (case e of (metric_name, r, conn_source) \<Rightarrow>
      if mm_connection_source s \<notin> set conn_source then s
      else
        let current_metric_source_value = get0 metric_source_data metric_name in
        (case last_value (store s r) of
           None \<Rightarrow> upd_metric r (\<lambda>m. m\<lparr>last_value := Some current_metric_source_value\<rparr>) s
         | Some lastv \<Rightarrow>
             let metric_status_per_sec =
                   (if per_second_calculation (store s r)
                    then (if 0 < polling_latency s
                          then py_round (of_int (current_metric_source_value - lastv) / polling_latency s)
                          else 0)
                    else current_metric_source_value);
                 vs = vals (store s r)
             in if metric_name = ''CPU_Percent'' then
                  (if length vs = 1 \<and> vs ! 0 = 0 then
                     add_metric r metric_status_per_sec
                       (upd_metric r (\<lambda>m. m\<lparr>vals := (vals m)[0 := metric_status_per_sec]\<rparr>) s)
                   else if (metric_status_per_sec = 0 \<or> metric_status_per_sec = 100)
                           \<and> 10 < \<bar>metric_status_per_sec - (if vs \<noteq> [] then last vs else 0)\<bar> then
                     (if last3 vs \<noteq> []
                      then add_metric r
                             (py_int (of_int (sum_list (last3 vs)) / of_nat (length (last3 vs)))) s
                      else add_metric r metric_status_per_sec s)
                   else add_metric r metric_status_per_sec s)
                else add_metric r metric_status_per_sec s))"

text \<open>
  The two nested loops shared by \<open>update_metrics_per_second_values\<close> and
  \<open>update_metrics_last_value\<close>: for every source of the lookup table whose raw
  dictionary is not \<open>None\<close>, run the loop body on each of its tuples in order.
\<close>

fun process_table ::
  "(raw_data \<Rightarrow> processing_entry \<Rightarrow> MetricManager \<Rightarrow> MetricManager)
     \<Rightarrow> (MetricSource \<times> processing_entry list) list \<Rightarrow> MetricManager \<Rightarrow> MetricManager" where
  "process_table body [] s = s"
| "process_table body ((src, metric_tuples) # rest) s =
     (case get_metric_source_data s src of
        None \<Rightarrow> process_table body rest s
      | Some metric_source_data \<Rightarrow>
          process_table body rest (fold (body metric_source_data) metric_tuples s))"

definition update_metrics_per_second_values :: "MetricManager \<Rightarrow> MetricManager" where
  "update_metrics_per_second_values s =
     process_table per_second_step (source_to_metrics_processing s) s"

definition last_value_step :: "raw_data \<Rightarrow> processing_entry \<Rightarrow> MetricManager \<Rightarrow> MetricManager" where
  "last_value_step metric_source_data e s =
     (case e of (metric_name, r, conn_source) \<Rightarrow>
        upd_metric r (\<lambda>m. m\<lparr>last_value := Some (get0 metric_source_data metric_name)\<rparr>) s)"

definition update_metrics_last_value :: "MetricManager \<Rightarrow> MetricManager" where
  "update_metrics_last_value s =
     process_table last_value_step (source_to_metrics_processing s) s"

definition update_metrics_replication_lag :: "MetricManager \<Rightarrow> MetricManager" where
  "update_metrics_replication_lag s =
     add_metric (''replication_lag'', ''lag'') (get0 (replication_status s) ''Seconds_Behind'') s"

definition hit_ratio :: "int \<Rightarrow> int \<Rightarrow> rat" where
  "hit_ratio blks_hit blks_read =
     (let total_blocks = blks_hit + blks_read
      in if 0 < total_blocks then py_round1 ((of_int blks_hit / of_int total_blocks) * 100)
         else 100)"

definition update_pg_cache_hit_ratio :: "MetricManager \<Rightarrow> MetricManager" where
  "update_pg_cache_hit_ratio s =
     add_metric (''pg_cache_hit_ratio'', ''cache_hit_ratio'')
       (py_int (hit_ratio (get0 (database_stats s) ''blks_hit'') (get0 (database_stats s) ''blks_read''))) s"

subsection \<open>Eviction\<close>

text \<open>One \<open>popleft\<close> of the clock and of every non-empty history-bearing series.\<close>

fun pop_series :: "metric_ref list \<Rightarrow> MetricManager \<Rightarrow> MetricManager" where
  "pop_series [] s = s"
| "pop_series (r # rs) s =
     pop_series rs (if vals (store s r) \<noteq> [] then upd_metric r (\<lambda>m. m\<lparr>vals := tl (vals m)\<rparr>) s else s)"

definition pop_oldest :: "MetricManager \<Rightarrow> MetricManager" where
  "pop_oldest s = pop_series (all_metrics_data_history s) (s\<lparr>datetimes := tl (datetimes s)\<rparr>)"

text \<open>
  The \<open>while self.datetimes\<close> loop of \<open>daemon_cleanup_data\<close>. A timestamp that does not
  parse (\<open>ValueError\<close>) is discarded with its values, like one that is too old; the
  inner \<open>IndexError\<close> handler cannot fire because the clock is non-empty there.
\<close>

function cleanup_loop :: "(string \<Rightarrow> datetime option) \<Rightarrow> datetime \<Rightarrow> MetricManager \<Rightarrow> MetricManager" where
  "cleanup_loop strptime time_threshold s =
     (case datetimes s of
        [] \<Rightarrow> s
      | d # ds \<Rightarrow>
          (case strptime d of
             Some first_dt \<Rightarrow>
               if first_dt < time_threshold
               then cleanup_loop strptime time_threshold (pop_oldest s)
               else s
           | None \<Rightarrow> cleanup_loop strptime time_threshold (pop_oldest s)))"
  by pat_completeness auto
termination
proof -
  have keep: "datetimes (pop_series rs s) = datetimes s" for rs s
    by (induction rs arbitrary: s) (simp_all add: upd_metric_def)
  have pop: "datetimes (pop_oldest s) = tl (datetimes s)" for s
    by (simp add: pop_oldest_def keep)
  show ?thesis
    by (relation "measure (\<lambda>(p, t, s). length (datetimes s))") (auto simp: pop)
qed

declare cleanup_loop.simps [simp del]

definition daemon_cleanup_data :: "(string \<Rightarrow> datetime option) \<Rightarrow> datetime \<Rightarrow> MetricManager \<Rightarrow> MetricManager" where
  "daemon_cleanup_data strptime now s =
     (if \<not> daemon_mode s \<or> datetimes s = [] then s
      else cleanup_loop strptime (now - 600) s)"

subsection \<open>refresh_data\<close>

text \<open>
  The keyword arguments of \<open>refresh_data\<close>; an argument left out (\<open>None\<close>) is the empty
  dictionary, as the function's first lines make it.
\<close>

record refresh_args =
  arg_system_utilization :: raw_data
  arg_disk_io_metrics :: raw_data
  arg_replication_status :: raw_data
  arg_database_stats :: raw_data
  arg_bgwriter_stats :: raw_data
  arg_connection_stats :: raw_data
  arg_pgbouncer_pools :: raw_data
  arg_pgbouncer_stats :: raw_data

definition no_args :: refresh_args where
  "no_args = \<lparr>arg_system_utilization = Map.empty, arg_disk_io_metrics = Map.empty,
              arg_replication_status = Map.empty, arg_database_stats = Map.empty,
              arg_bgwriter_stats = Map.empty, arg_connection_stats = Map.empty,
              arg_pgbouncer_pools = Map.empty, arg_pgbouncer_stats = Map.empty\<rparr>"

definition store_inputs :: "datetime \<Rightarrow> rat \<Rightarrow> refresh_args \<Rightarrow> MetricManager \<Rightarrow> MetricManager" where
  "store_inputs wst latency a s =
     s\<lparr>worker_start_time := Some wst, polling_latency := latency,
       system_utilization := system_utilization s ++ arg_system_utilization a,
       disk_io_metrics := disk_io_metrics s ++ arg_disk_io_metrics a,
       replication_status := arg_replication_status a,
       database_stats := database_stats s ++ arg_database_stats a,
       bgwriter_stats := bgwriter_stats s ++ arg_bgwriter_stats a,
       connection_stats := connection_stats s ++ arg_connection_stats a,
       pgbouncer_pools := pgbouncer_pools s ++ arg_pgbouncer_pools a,
       pgbouncer_stats := pgbouncer_stats s ++ arg_pgbouncer_stats a\<rparr>"

definition update_all :: "MetricManager \<Rightarrow> MetricManager" where
  "update_all s =
     (if \<not> truthy (replay_file s)
      then update_metrics_last_value
             (update_pg_cache_hit_ratio
               (update_metrics_replication_lag
                 (update_metrics_per_second_values s)))
      else s)"

text \<open>
  \<open>refresh_data\<close>; \<open>now\<close> is the reading of \<open>datetime.now()\<close> inside
  \<open>daemon_cleanup_data\<close>.
\<close>

definition refresh_data ::
  "(datetime \<Rightarrow> string) \<Rightarrow> (string \<Rightarrow> datetime option) \<Rightarrow> datetime
     \<Rightarrow> datetime \<Rightarrow> rat \<Rightarrow> refresh_args \<Rightarrow> MetricManager \<Rightarrow> MetricManager" where
  "refresh_data strftime strptime now wst latency a s =
     (daemon_cleanup_data strptime now
        (add_metric_datetime strftime
           (update_all (store_inputs wst latency a s))))\<lparr>initialized := True\<rparr>"

section \<open>Effects on the store\<close>

text \<open>
  Every ingestion and eviction step changes only the \<open>MetricData\<close> objects; the
  lemmas below give the effect of each loop on one object.
\<close>


definition only_store :: "MetricManager \<Rightarrow> MetricManager \<Rightarrow> bool" where
  "only_store s s' = (s' = s\<lparr>store := store s'\<rparr>)"

lemma only_store_refl: "only_store s s"
  by (simp add: only_store_def)

lemma only_store_trans: "only_store s s' \<Longrightarrow> only_store s' s'' \<Longrightarrow> only_store s s''"
  unfolding only_store_def
  by (metis MetricManager.update_convs(17) MetricManager.surjective)

lemma only_store_fields:
  assumes "only_store s s'"
  shows "mm_connection_source s' = mm_connection_source s"
    and "replay_file s' = replay_file s"
    and "daemon_mode s' = daemon_mode s"
    and "worker_start_time s' = worker_start_time s"
    and "system_utilization s' = system_utilization s"
    and "disk_io_metrics s' = disk_io_metrics s"
    and "replication_status s' = replication_status s"
    and "database_stats s' = database_stats s"
    and "bgwriter_stats s' = bgwriter_stats s"
    and "connection_stats s' = connection_stats s"
    and "pgbouncer_pools s' = pgbouncer_pools s"
    and "pgbouncer_stats s' = pgbouncer_stats s"
    and "initialized s' = initialized s"
    and "polling_latency s' = polling_latency s"
    and "datetimes s' = datetimes s"
    and "metrics s' = metrics s"
    and "source_to_metrics_processing s' = source_to_metrics_processing s"
    and "all_metrics_data_history s' = all_metrics_data_history s"
  using assms unfolding only_store_def
  by (metis MetricManager.select_convs MetricManager.surjective MetricManager.update_convs(17))+

lemma only_store_upd: "only_store s (upd_metric r f s)"
  by (simp add: only_store_def upd_metric_def)

lemma store_upd_metric: "store (upd_metric r f s) r' = (if r' = r then f (store s r) else store s r')"
  by (simp add: upd_metric_def)

lemma only_store_get_data: "only_store s s' \<Longrightarrow> get_metric_source_data s' src = get_metric_source_data s src"
  by (simp add: get_metric_source_data_def only_store_fields split: MetricSource.splits)


definition add_value :: "bool \<Rightarrow> int \<Rightarrow> MetricData \<Rightarrow> MetricData" where
  "add_value init v m =
     (if init then
        (if save_history m then m\<lparr>vals := vals m @ [v]\<rparr>
         else if vals m \<noteq> [] then m\<lparr>vals := (vals m)[0 := v]\<rparr>
         else m\<lparr>vals := vals m @ [v]\<rparr>)
      else m)"

lemma upd_metric_set: "upd_metric r f s = s\<lparr>store := (store s)(r := f (store s r))\<rparr>"
  by (simp add: upd_metric_def)

lemma add_metric_eq:
  "add_metric r v s = s\<lparr>store := (store s)(r := add_value (initialized s) v (store s r))\<rparr>"
  by (simp add: add_metric_def add_value_def upd_metric_def)

definition derived_value :: "rat \<Rightarrow> int \<Rightarrow> MetricData \<Rightarrow> int \<Rightarrow> int" where
  "derived_value latency current m lastv =
     (if per_second_calculation m
      then (if 0 < latency then py_round (of_int (current - lastv) / latency) else 0)
      else current)"

definition per_second_effect ::
  "ConnectionSource \<Rightarrow> rat \<Rightarrow> bool \<Rightarrow> int \<Rightarrow> string \<Rightarrow> ConnectionSource list \<Rightarrow> MetricData \<Rightarrow> MetricData" where
  "per_second_effect cs latency init current metric_name conn_source m =
     (if cs \<notin> set conn_source then m
      else case last_value m of
        None \<Rightarrow> m\<lparr>last_value := Some current\<rparr>
      | Some lastv \<Rightarrow>
          let v = derived_value latency current m lastv; vs = vals m
          in if metric_name = ''CPU_Percent'' then
               (if length vs = 1 \<and> vs ! 0 = 0 then add_value init v (m\<lparr>vals := vs[0 := v]\<rparr>)
                else if (v = 0 \<or> v = 100) \<and> 10 < \<bar>v - (if vs \<noteq> [] then last vs else 0)\<bar> then
                  (if last3 vs \<noteq> []
                   then add_value init (py_int (of_int (sum_list (last3 vs)) / of_nat (length (last3 vs)))) m
                   else add_value init v m)
                else add_value init v m)
             else add_value init v m)"

lemma per_second_step_eq:
  "per_second_step d (n, r, c) s =
     s\<lparr>store := (store s)(r := per_second_effect (mm_connection_source s) (polling_latency s)
                                   (initialized s) (get0 d n) n c (store s r))\<rparr>"
proof (cases "mm_connection_source s \<in> set c")
  case False
  then show ?thesis
    by (simp add: per_second_step_def per_second_effect_def)
next
  case inl: True
  show ?thesis
  proof (cases "last_value (store s r)")
    case None
    with inl show ?thesis
      by (simp add: per_second_step_def per_second_effect_def upd_metric_def)
  next
    case (Some lastv)
    define v where "v = derived_value (polling_latency s) (get0 d n) (store s r) lastv"
    define vs where "vs = vals (store s r)"
    define mean where "mean = py_int (of_int (sum_list (last3 vs)) / of_nat (length (last3 vs)))"
    have step: "per_second_step d (n, r, c) s =
       (if n = ''CPU_Percent'' then
          (if length vs = 1 \<and> vs ! 0 = 0 then
             add_metric r v (upd_metric r (\<lambda>m. m\<lparr>vals := (vals m)[0 := v]\<rparr>) s)
           else if (v = 0 \<or> v = 100) \<and> 10 < \<bar>v - (if vs \<noteq> [] then last vs else 0)\<bar> then
             (if last3 vs \<noteq> [] then add_metric r mean s else add_metric r v s)
           else add_metric r v s)
        else add_metric r v s)"
      using inl Some unfolding per_second_step_def v_def vs_def derived_value_def mean_def
      by (simp only: prod.case Let_def option.case if_False not_True_eq_False not_not if_True)
    have eff: "per_second_effect (mm_connection_source s) (polling_latency s) (initialized s)
                 (get0 d n) n c (store s r) =
       (if n = ''CPU_Percent'' then
          (if length vs = 1 \<and> vs ! 0 = 0 then
             add_value (initialized s) v ((store s r)\<lparr>vals := vs[0 := v]\<rparr>)
           else if (v = 0 \<or> v = 100) \<and> 10 < \<bar>v - (if vs \<noteq> [] then last vs else 0)\<bar> then
             (if last3 vs \<noteq> [] then add_value (initialized s) mean (store s r)
              else add_value (initialized s) v (store s r))
           else add_value (initialized s) v (store s r))
        else add_value (initialized s) v (store s r))"
      using inl Some unfolding per_second_effect_def v_def vs_def mean_def
      by (simp only: Let_def option.case if_False not_True_eq_False not_not if_True)
    have a2: "add_metric r v (upd_metric r (\<lambda>m. m\<lparr>vals := (vals m)[0 := v]\<rparr>) s) =
              s\<lparr>store := (store s)(r := add_value (initialized s) v ((store s r)\<lparr>vals := vs[0 := v]\<rparr>))\<rparr>"
      by (simp add: add_metric_eq upd_metric_def vs_def)
    show ?thesis
      unfolding step eff a2 by (simp add: add_metric_eq)
  qed
qed


definition entry_ref :: "processing_entry \<Rightarrow> metric_ref" where
  "entry_ref e = fst (snd e)"

definition all_entries :: "(MetricSource \<times> processing_entry list) list \<Rightarrow> processing_entry list" where
  "all_entries tbl = concat (map snd tbl)"

definition store_step ::
  "(MetricManager \<Rightarrow> raw_data \<Rightarrow> processing_entry \<Rightarrow> MetricData \<Rightarrow> MetricData)
    \<Rightarrow> (raw_data \<Rightarrow> processing_entry \<Rightarrow> MetricManager \<Rightarrow> MetricManager) \<Rightarrow> bool" where
  "store_step eff body =
     ((\<forall>d e s. body d e s =
          s\<lparr>store := (store s)(entry_ref e := eff s d e (store s (entry_ref e)))\<rparr>)
      \<and> (\<forall>s s'. only_store s s' \<longrightarrow> eff s' = eff s))"

lemma store_stepD1:
  "store_step eff body \<Longrightarrow>
     body d e s = s\<lparr>store := (store s)(entry_ref e := eff s d e (store s (entry_ref e)))\<rparr>"
  unfolding store_step_def by blast

lemma store_stepD2: "store_step eff body \<Longrightarrow> only_store s s' \<Longrightarrow> eff s' = eff s"
  unfolding store_step_def by blast

lemma store_step_only_store: "store_step eff body \<Longrightarrow> only_store s (body d e s)"
  by (simp add: store_stepD1 only_store_def)

lemma fold_only_store:
  assumes "store_step eff body"
  shows "only_store s (fold (body d) es s)"
proof (induction es arbitrary: s)
  case Nil
  show ?case by (simp add: only_store_refl)
next
  case (Cons e es)
  show ?case
    using only_store_trans [OF store_step_only_store [OF assms] Cons.IH] by simp
qed

lemma fold_other:
  assumes "store_step eff body" and "r \<notin> entry_ref ` set es"
  shows "store (fold (body d) es s) r = store s r"
  using assms(2)
proof (induction es arbitrary: s)
  case Nil
  show ?case by simp
next
  case (Cons e es)
  have "store (body d e s) r = store s r"
    using Cons.prems by (simp add: store_stepD1 [OF assms(1)])
  with Cons show ?case by simp
qed

lemma fold_at:
  assumes st: "store_step eff body"
    and "distinct (map entry_ref es)" and "e \<in> set es"
  shows "store (fold (body d) es s) (entry_ref e) = eff s d e (store s (entry_ref e))"
  using assms(2,3)
proof (induction es arbitrary: s)
  case Nil
  then show ?case by simp
next
  case (Cons x es)
  show ?case
  proof (cases "x = e")
    case True
    then have "entry_ref e \<notin> entry_ref ` set es"
      using Cons.prems by auto
    then have "store (fold (body d) es (body d e s)) (entry_ref e) = store (body d e s) (entry_ref e)"
      by (rule fold_other [OF st])
    also have "\<dots> = eff s d e (store s (entry_ref e))"
      by (simp add: store_stepD1 [OF st])
    finally show ?thesis using True by simp
  next
    case False
    then have mem: "e \<in> set es" and ne: "entry_ref x \<noteq> entry_ref e"
      using Cons.prems by auto
    have os: "only_store s (body d x s)"
      by (rule store_step_only_store [OF st])
    have same: "store (body d x s) (entry_ref e) = store s (entry_ref e)"
      using ne by (simp add: store_stepD1 [OF st])
    have "store (fold (body d) es (body d x s)) (entry_ref e)
            = eff (body d x s) d e (store (body d x s) (entry_ref e))"
      using Cons.IH [OF _ mem] Cons.prems by simp
    also have "\<dots> = eff s d e (store s (entry_ref e))"
      using store_stepD2 [OF st os] same by simp
    finally show ?thesis by simp
  qed
qed

lemma process_table_only_store:
  assumes st: "store_step eff body"
  shows "only_store s (process_table body tbl s)"
proof (induction tbl arbitrary: s)
  case Nil
  show ?case by (simp add: only_store_refl)
next
  case (Cons p tbl)
  obtain src es where p: "p = (src, es)" by (cases p)
  show ?case
  proof (cases "get_metric_source_data s src")
    case None
    then show ?thesis using Cons.IH p by simp
  next
    case (Some d)
    then show ?thesis
      using only_store_trans [OF fold_only_store [OF st] Cons.IH] p by simp
  qed
qed

lemma process_table_other:
  assumes st: "store_step eff body" and "r \<notin> entry_ref ` set (all_entries tbl)"
  shows "store (process_table body tbl s) r = store s r"
  using assms(2)
proof (induction tbl arbitrary: s)
  case Nil
  show ?case by simp
next
  case (Cons p tbl)
  obtain src es where p: "p = (src, es)" by (cases p)
  have r1: "r \<notin> entry_ref ` set es" and r2: "r \<notin> entry_ref ` set (all_entries tbl)"
    using Cons.prems p by (auto simp: all_entries_def)
  show ?case
  proof (cases "get_metric_source_data s src")
    case None
    then show ?thesis using Cons.IH [OF r2] p by simp
  next
    case (Some d)
    then show ?thesis
      using Cons.IH [OF r2] fold_other [OF st r1] p by simp
  qed
qed

lemma process_table_at:
  assumes st: "store_step eff body"
    and "distinct (map entry_ref (all_entries tbl))"
    and "(src, es) \<in> set tbl" and "e \<in> set es"
    and "get_metric_source_data s src = Some d"
  shows "store (process_table body tbl s) (entry_ref e) = eff s d e (store s (entry_ref e))"
  using assms(2,3,5)
proof (induction tbl arbitrary: s)
  case Nil
  then show ?case by simp
next
  case (Cons p tbl)
  obtain src' es' where p: "p = (src', es')" by (cases p)
  have dist: "distinct (map entry_ref es')" "distinct (map entry_ref (all_entries tbl))"
    and disj: "entry_ref ` set es' \<inter> entry_ref ` set (all_entries tbl) = {}"
    using Cons.prems(1) p by (auto simp: all_entries_def)
  show ?case
  proof (cases "p = (src, es)")
    case True
    then have eq: "src' = src" "es' = es" using p by auto
    have "entry_ref e \<in> entry_ref ` set es'"
      using assms(4) eq by auto
    then have out: "entry_ref e \<notin> entry_ref ` set (all_entries tbl)"
      using disj by auto
    show ?thesis
      using process_table_other [OF st out] fold_at [OF st dist(1)] assms(4) Cons.prems(3) eq p
      by simp
  next
    case False
    then have mem: "(src, es) \<in> set tbl" using Cons.prems(2) by auto
    then have "entry_ref e \<in> entry_ref ` set (all_entries tbl)"
      using assms(4) by (force simp: all_entries_def)
    then have out: "entry_ref e \<notin> entry_ref ` set es'"
      using disj by auto
    define s' where "s' = (case get_metric_source_data s src' of None \<Rightarrow> s
                            | Some d' \<Rightarrow> fold (body d') es' s)"
    have os: "only_store s s'"
      unfolding s'_def using fold_only_store [OF st] by (simp add: only_store_refl split: option.splits)
    have same: "store s' (entry_ref e) = store s (entry_ref e)"
      unfolding s'_def using fold_other [OF st out] by (simp split: option.splits)
    have step: "process_table body (p # tbl) s = process_table body tbl s'"
      unfolding s'_def p by (simp split: option.splits)
    have "get_metric_source_data s' src = Some d"
      using only_store_get_data [OF os] Cons.prems(3) by simp
    from Cons.IH [OF dist(2) mem this]
    have "store (process_table body tbl s') (entry_ref e) = eff s' d e (store s' (entry_ref e))" .
    also have "\<dots> = eff s d e (store s (entry_ref e))"
      using store_stepD2 [OF st os] same by simp
    finally show ?thesis using step by simp
  qed
qed


definition per_second_eff :: "MetricManager \<Rightarrow> raw_data \<Rightarrow> processing_entry \<Rightarrow> MetricData \<Rightarrow> MetricData" where
  "per_second_eff s d e =
     per_second_effect (mm_connection_source s) (polling_latency s) (initialized s)
       (get0 d (fst e)) (fst e) (snd (snd e))"

definition last_value_eff :: "MetricManager \<Rightarrow> raw_data \<Rightarrow> processing_entry \<Rightarrow> MetricData \<Rightarrow> MetricData" where
  "last_value_eff s d e m = m\<lparr>last_value := Some (get0 d (fst e))\<rparr>"

lemma store_step_per_second: "store_step per_second_eff per_second_step"
  unfolding store_step_def
proof (intro conjI allI impI)
  fix d and e :: processing_entry and s
  obtain n r c where e: "e = (n, r, c)" by (cases e) auto
  show "per_second_step d e s =
          s\<lparr>store := (store s)(entry_ref e := per_second_eff s d e (store s (entry_ref e)))\<rparr>"
    unfolding e by (simp add: per_second_step_eq per_second_eff_def entry_ref_def)
next
  fix s s' assume "only_store s s'"
  then show "per_second_eff s' = per_second_eff s"
    by (intro ext) (simp add: per_second_eff_def only_store_fields)
qed

lemma store_step_last_value: "store_step last_value_eff last_value_step"
  unfolding store_step_def
proof (intro conjI allI impI)
  fix d and e :: processing_entry and s
  obtain n r c where e: "e = (n, r, c)" by (cases e) auto
  show "last_value_step d e s =
          s\<lparr>store := (store s)(entry_ref e := last_value_eff s d e (store s (entry_ref e)))\<rparr>"
    unfolding e by (simp add: last_value_step_def last_value_eff_def entry_ref_def upd_metric_def)
next
  fix s s' :: MetricManager assume "only_store s s'"
  show "last_value_eff s' = last_value_eff s"
    by (intro ext) (simp add: last_value_eff_def)
qed

lemma only_store_add_metric: "only_store s (add_metric r v s)"
  by (simp add: add_metric_eq only_store_def)

lemma only_store_per_second: "only_store s (update_metrics_per_second_values s)"
  unfolding update_metrics_per_second_values_def
  by (rule process_table_only_store [OF store_step_per_second])

lemma only_store_last_value: "only_store s (update_metrics_last_value s)"
  unfolding update_metrics_last_value_def
  by (rule process_table_only_store [OF store_step_last_value])

lemma only_store_lag: "only_store s (update_metrics_replication_lag s)"
  by (simp add: update_metrics_replication_lag_def only_store_add_metric)

lemma only_store_ratio: "only_store s (update_pg_cache_hit_ratio s)"
  by (simp add: update_pg_cache_hit_ratio_def only_store_add_metric)

lemma only_store_update_all: "only_store s (update_all s)"
  unfolding update_all_def
  using only_store_per_second only_store_lag only_store_ratio only_store_last_value
        only_store_trans only_store_refl
  by (metis (full_types))

subsection \<open>Effect of one eviction step\<close>

lemma pop_series_only_store: "only_store s (pop_series rs s)"
proof (induction rs arbitrary: s)
  case Nil
  show ?case by (simp add: only_store_refl)
next
  case (Cons r rs)
  have "only_store s (if vals (store s r) \<noteq> [] then upd_metric r (\<lambda>m. m\<lparr>vals := tl (vals m)\<rparr>) s else s)"
    by (simp add: only_store_refl only_store_upd)
  from only_store_trans [OF this Cons.IH] show ?case by simp
qed

lemma pop_series_store:
  "distinct rs \<Longrightarrow>
     store (pop_series rs s) r =
       (if r \<in> set rs then (store s r)\<lparr>vals := tl (vals (store s r))\<rparr> else store s r)"
proof (induction rs arbitrary: s)
  case Nil
  show ?case by simp
next
  case (Cons x rs)
  define s' where "s' = (if vals (store s x) \<noteq> [] then upd_metric x (\<lambda>m. m\<lparr>vals := tl (vals m)\<rparr>) s else s)"
  have sx: "store s' x = (store s x)\<lparr>vals := tl (vals (store s x))\<rparr>"
    by (simp add: s'_def upd_metric_def)
  have so: "r \<noteq> x \<Longrightarrow> store s' r = store s r"
    by (simp add: s'_def upd_metric_def)
  have "store (pop_series (x # rs) s) r = store (pop_series rs s') r"
    by (simp add: s'_def)
  also have "\<dots> = (if r \<in> set rs then (store s' r)\<lparr>vals := tl (vals (store s' r))\<rparr> else store s' r)"
    using Cons by simp
  also have "\<dots> = (if r \<in> set (x # rs) then (store s r)\<lparr>vals := tl (vals (store s r))\<rparr> else store s r)"
    using Cons.prems sx so by (cases "r = x") auto
  finally show ?case .
qed



section \<open>Evaluating the arithmetic\<close>

lemma floor_rat_numeral [simp]:
  "\<lfloor>(numeral a / numeral b :: rat)\<rfloor> = numeral a div numeral b"
  using floor_divide_of_int_eq [of "numeral a" "numeral b", where ?'a = rat] by simp

lemma floor_rat_neg_numeral [simp]:
  "\<lfloor>(- numeral a / numeral b :: rat)\<rfloor> = - numeral a div numeral b"
  using floor_divide_of_int_eq [of "- numeral a" "numeral b", where ?'a = rat] by simp

lemma store_init: "store (MetricManager_init rf dm) = initial_MetricData"
  by (simp add: MetricManager_init_def reset_def Let_def)

subsection \<open>The first cycle after a reset\<close>

text \<open>A store is fresh when it is not initialized and holds no timestamp and no value.\<close>

definition fresh :: "MetricManager \<Rightarrow> bool" where
  "fresh s = (\<not> initialized s \<and> datetimes s = [] \<and> (\<forall>r. vals (store s r) = []))"

lemma fold_inv:
  assumes "\<And>e s. Q s \<Longrightarrow> Q (body d e s)" and "Q s"
  shows "Q (fold (body d) es s)"
  using assms(2) by (induction es arbitrary: s) (simp_all add: assms(1))

lemma process_table_inv:
  assumes "\<And>d e s. Q s \<Longrightarrow> Q (body d e s)" and "Q s"
  shows "Q (process_table body tbl s)"
  using assms(2)
proof (induction tbl arbitrary: s)
  case Nil
  then show ?case by simp
next
  case (Cons p tbl)
  obtain src es where p: "p = (src, es)" by (cases p)
  show ?case
    using Cons fold_inv [of Q body, OF assms(1)] p by (simp split: option.splits)
qed

lemma per_second_effect_fresh:
  "vals m = [] \<Longrightarrow> vals (per_second_effect cs lat False cur n c m) = []"
  by (simp add: per_second_effect_def add_value_def Let_def split: option.splits)

lemma freshD:
  assumes "fresh s"
  shows "\<not> initialized s" and "datetimes s = []" and "vals (store s r) = []"
  using assms unfolding fresh_def by blast+

lemma freshI:
  assumes "\<not> initialized s" and "datetimes s = []" and "\<And>r. vals (store s r) = []"
  shows "fresh s"
  using assms unfolding fresh_def by blast

lemma fresh_per_second_step:
  assumes f: "fresh s"
  shows "fresh (per_second_step d e s)"
proof -
  obtain n r c where e: "e = (n, r, c)" by (cases e) auto
  show ?thesis
  proof (rule freshI)
    show "\<not> initialized (per_second_step d e s)"
      using freshD(1) [OF f] by (simp add: e per_second_step_eq)
    show "datetimes (per_second_step d e s) = []"
      using freshD(2) [OF f] by (simp add: e per_second_step_eq)
    show "vals (store (per_second_step d e s) r') = []" for r'
      using freshD(1,3) [OF f] by (simp add: e per_second_step_eq per_second_effect_fresh)
  qed
qed

lemma fresh_last_value_step:
  assumes f: "fresh s"
  shows "fresh (last_value_step d e s)"
proof -
  obtain n r c where e: "e = (n, r, c)" by (cases e) auto
  show ?thesis
  proof (rule freshI)
    show "\<not> initialized (last_value_step d e s)"
      using freshD(1) [OF f] by (simp add: e last_value_step_def upd_metric_def)
    show "datetimes (last_value_step d e s) = []"
      using freshD(2) [OF f] by (simp add: e last_value_step_def upd_metric_def)
    show "vals (store (last_value_step d e s) r') = []" for r'
      using freshD(3) [OF f] by (simp add: e last_value_step_def upd_metric_def)
  qed
qed

lemma fresh_add_metric: "fresh s \<Longrightarrow> add_metric r v s = s"
  by (simp add: freshD(1) add_metric_def)

lemma fresh_update_all:
  assumes f: "fresh s"
  shows "fresh (update_all s)"
proof (cases "truthy (replay_file s)")
  case True
  then show ?thesis using f by (simp add: update_all_def)
next
  case False
  have 1: "fresh (update_metrics_per_second_values s)"
    unfolding update_metrics_per_second_values_def
    by (rule process_table_inv [of fresh, OF fresh_per_second_step f])
  have 2: "update_metrics_replication_lag (update_metrics_per_second_values s)
             = update_metrics_per_second_values s"
    by (simp add: update_metrics_replication_lag_def fresh_add_metric [OF 1])
  have 3: "update_pg_cache_hit_ratio (update_metrics_per_second_values s)
             = update_metrics_per_second_values s"
    by (simp add: update_pg_cache_hit_ratio_def fresh_add_metric [OF 1])
  have 4: "fresh (update_metrics_last_value (update_metrics_per_second_values s))"
    unfolding update_metrics_last_value_def [of "update_metrics_per_second_values s"]
    by (rule process_table_inv [of fresh, OF fresh_last_value_step 1])
  show ?thesis
    using False 4 by (simp add: update_all_def 2 3)
qed

lemma fresh_store_inputs: "fresh s \<Longrightarrow> fresh (store_inputs wst latency a s)"
  unfolding fresh_def by (simp add: store_inputs_def)

lemma fresh_reset: "fresh (reset s)"
  by (rule freshI) (simp_all add: reset_def Let_def initial_MetricData_def mk_MetricData_def)

lemma fresh_refresh:
  assumes "fresh s"
  shows "datetimes (refresh_data strftime strptime now wst latency a s) = []"
    and "vals (store (refresh_data strftime strptime now wst latency a s) r) = []"
    and "initialized (refresh_data strftime strptime now wst latency a s)"
proof -
  define u where "u = update_all (store_inputs wst latency a s)"
  have fu: "fresh u"
    unfolding u_def by (intro fresh_update_all fresh_store_inputs assms)
  have "add_metric_datetime strftime u = u"
    using freshD(1) [OF fu] by (simp add: add_metric_datetime_def split: option.splits)
  moreover have "daemon_cleanup_data strptime now u = u"
    using freshD(2) [OF fu] by (simp add: daemon_cleanup_data_def)
  ultimately have r: "refresh_data strftime strptime now wst latency a s = u\<lparr>initialized := True\<rparr>"
    by (simp add: refresh_data_def u_def)
  show "datetimes (refresh_data strftime strptime now wst latency a s) = []"
    and "vals (store (refresh_data strftime strptime now wst latency a s) r) = []"
    and "initialized (refresh_data strftime strptime now wst latency a s)"
    using freshD(2,3) [OF fu] by (simp_all add: r)
qed

subsection \<open>The lookup tables that reset builds\<close>

definition entries_of :: "string \<Rightarrow> ConnectionSource list \<Rightarrow> string list \<Rightarrow> processing_entry list" where
  "entries_of iname conn attrs = map (\<lambda>a. (a, (iname, a), conn)) attrs"

lemma tables_value:
  "build_tables initial_MetricData initial_metrics ([], []) =
   ([(SYSTEM_UTILIZATION,
        entries_of ''system_cpu'' system_sources [''CPU_Percent'']
        @ entries_of ''system_memory'' system_sources [''Memory_Total'', ''Memory_Used'']
        @ entries_of ''system_disk_io'' system_sources [''Disk_Read'', ''Disk_Write'']
        @ entries_of ''system_network'' system_sources [''Network_Down'', ''Network_Up'']),
     (DATABASE_STATS,
        entries_of ''pg_transactions'' all_pg_sources [''xact_commit'', ''xact_rollback'']
        @ entries_of ''pg_tuples'' all_pg_sources
            [''tup_fetched'', ''tup_inserted'', ''tup_updated'', ''tup_deleted'']
        @ entries_of ''pg_block_io'' all_pg_sources [''blks_hit'', ''blks_read'']
        @ entries_of ''pg_temp_files'' all_pg_sources [''temp_files'', ''temp_bytes'']),
     (CONNECTION_STATS,
        entries_of ''pg_connections'' all_pg_sources [''active'', ''idle'', ''idle_in_transaction'']),
     (BGWRITER_STATS,
        entries_of ''pg_checkpoints'' all_pg_sources
            [''checkpoints_timed'', ''checkpoints_req'', ''buffers_checkpoint'']),
     (PGBOUNCER_POOLS,
        entries_of ''pgbouncer_connections'' [pgbouncer]
            [''cl_active'', ''cl_waiting'', ''sv_active'', ''sv_idle'']),
     (PGBOUNCER_STATS,
        entries_of ''pgbouncer_traffic'' [pgbouncer]
            [''xact_count'', ''query_count'', ''bytes_received'', ''bytes_sent''])],
    [(''system_cpu'', ''CPU_Percent''), (''system_memory'', ''Memory_Used''),
     (''system_disk_io'', ''Disk_Read''), (''system_disk_io'', ''Disk_Write''),
     (''system_network'', ''Network_Down''), (''system_network'', ''Network_Up''),
     (''pg_transactions'', ''xact_commit''), (''pg_transactions'', ''xact_rollback''),
     (''pg_tuples'', ''tup_fetched''), (''pg_tuples'', ''tup_inserted''),
     (''pg_tuples'', ''tup_updated''), (''pg_tuples'', ''tup_deleted''),
     (''pg_block_io'', ''blks_hit''), (''pg_block_io'', ''blks_read''),
     (''pg_cache_hit_ratio'', ''cache_hit_ratio''),
     (''pg_connections'', ''active''), (''pg_connections'', ''idle''),
     (''pg_connections'', ''idle_in_transaction''),
     (''pg_checkpoints'', ''checkpoints_timed''), (''pg_checkpoints'', ''checkpoints_req''),
     (''pg_checkpoints'', ''buffers_checkpoint''),
     (''pg_temp_files'', ''temp_files''), (''pg_temp_files'', ''temp_bytes''),
     (''replication_lag'', ''lag''),
     (''pgbouncer_connections'', ''cl_active''), (''pgbouncer_connections'', ''cl_waiting''),
     (''pgbouncer_connections'', ''sv_active''), (''pgbouncer_connections'', ''sv_idle''),
     (''pgbouncer_traffic'', ''xact_count''), (''pgbouncer_traffic'', ''query_count''),
     (''pgbouncer_traffic'', ''bytes_received''), (''pgbouncer_traffic'', ''bytes_sent'')])"
  by (simp add: initial_metrics_def initial_MetricData_def mk_MetricData_def
        no_history_metrics_def gauge_metrics_def entries_of_def)


definition lookup_tables :: "(MetricSource \<times> processing_entry list) list \<times> metric_ref list" where
  "lookup_tables = build_tables initial_MetricData initial_metrics ([], [])"

definition lag_ref :: metric_ref where
  "lag_ref = (''replication_lag'', ''lag'')"

definition ratio_ref :: metric_ref where
  "ratio_ref = (''pg_cache_hit_ratio'', ''cache_hit_ratio'')"

lemma entry_refs_value:
  "map entry_ref (all_entries (fst lookup_tables)) =
     [(''system_cpu'', ''CPU_Percent''), (''system_memory'', ''Memory_Total''),
      (''system_memory'', ''Memory_Used''),
      (''system_disk_io'', ''Disk_Read''), (''system_disk_io'', ''Disk_Write''),
      (''system_network'', ''Network_Down''), (''system_network'', ''Network_Up''),
      (''pg_transactions'', ''xact_commit''), (''pg_transactions'', ''xact_rollback''),
      (''pg_tuples'', ''tup_fetched''), (''pg_tuples'', ''tup_inserted''),
      (''pg_tuples'', ''tup_updated''), (''pg_tuples'', ''tup_deleted''),
      (''pg_block_io'', ''blks_hit''), (''pg_block_io'', ''blks_read''),
      (''pg_temp_files'', ''temp_files''), (''pg_temp_files'', ''temp_bytes''),
      (''pg_connections'', ''active''), (''pg_connections'', ''idle''),
      (''pg_connections'', ''idle_in_transaction''),
      (''pg_checkpoints'', ''checkpoints_timed''), (''pg_checkpoints'', ''checkpoints_req''),
      (''pg_checkpoints'', ''buffers_checkpoint''),
      (''pgbouncer_connections'', ''cl_active''), (''pgbouncer_connections'', ''cl_waiting''),
      (''pgbouncer_connections'', ''sv_active''), (''pgbouncer_connections'', ''sv_idle''),
      (''pgbouncer_traffic'', ''xact_count''), (''pgbouncer_traffic'', ''query_count''),
      (''pgbouncer_traffic'', ''bytes_received''), (''pgbouncer_traffic'', ''bytes_sent'')]"
  by (simp add: lookup_tables_def tables_value all_entries_def entries_of_def entry_ref_def)

lemma distinct_entry_refs: "distinct (map entry_ref (all_entries (fst lookup_tables)))"
  unfolding entry_refs_value by simp

lemma distinct_history: "distinct (snd lookup_tables)"
  by (simp add: lookup_tables_def tables_value)

lemma lag_not_entry: "lag_ref \<notin> entry_ref ` set (all_entries (fst lookup_tables))"
  unfolding set_map [symmetric] entry_refs_value by (simp add: lag_ref_def)

lemma ratio_not_entry: "ratio_ref \<notin> entry_ref ` set (all_entries (fst lookup_tables))"
  unfolding set_map [symmetric] entry_refs_value by (simp add: ratio_ref_def)



subsection \<open>The eviction sweep as one drop\<close>

text \<open>Dropping the \<open>k\<close> oldest entries of the clock and of every history-bearing series.\<close>

definition evict :: "nat \<Rightarrow> MetricManager \<Rightarrow> MetricManager" where
  "evict k s =
     s\<lparr>datetimes := drop k (datetimes s),
       store := (\<lambda>r. if r \<in> set (all_metrics_data_history s)
                     then (store s r)\<lparr>vals := drop k (vals (store s r))\<rparr>
                     else store s r)\<rparr>"

fun expired :: "(string \<Rightarrow> datetime option) \<Rightarrow> datetime \<Rightarrow> string list \<Rightarrow> nat" where
  "expired strptime t [] = 0"
| "expired strptime t (d # ds) =
     (case strptime d of
        Some first_dt \<Rightarrow> if first_dt < t then Suc (expired strptime t ds) else 0
      | None \<Rightarrow> Suc (expired strptime t ds))"

lemma evict_0: "evict 0 s = s"
  by (rule MetricManager.equality) (simp_all add: evict_def fun_eq_iff)

lemma pop_oldest_evict:
  assumes "distinct (all_metrics_data_history s)"
  shows "pop_oldest s = evict 1 s"
proof -
  define s1 where "s1 = s\<lparr>datetimes := tl (datetimes s)\<rparr>"
  have os: "only_store s1 (pop_series (all_metrics_data_history s) s1)"
    by (rule pop_series_only_store)
  have st: "store (pop_series (all_metrics_data_history s) s1) =
        (\<lambda>r. if r \<in> set (all_metrics_data_history s)
             then (store s r)\<lparr>vals := drop 1 (vals (store s r))\<rparr> else store s r)"
    using pop_series_store [OF assms, of s1] by (auto simp: s1_def drop_Suc)
  have "pop_series (all_metrics_data_history s) s1 = s1\<lparr>store := store (pop_series (all_metrics_data_history s) s1)\<rparr>"
    using os by (simp add: only_store_def)
  then show ?thesis
    unfolding pop_oldest_def evict_def s1_def [symmetric] st
    by (simp add: s1_def drop_Suc)
qed

lemma evict_evict:
  "evict j (evict k s) = evict (k + j) s"
  by (rule MetricManager.equality) (simp_all add: evict_def fun_eq_iff add.commute)

lemma history_evict: "all_metrics_data_history (evict k s) = all_metrics_data_history s"
  by (simp add: evict_def)

lemma datetimes_evict: "datetimes (evict k s) = drop k (datetimes s)"
  by (simp add: evict_def)

lemma cleanup_loop_evict:
  assumes "distinct (all_metrics_data_history s)"
  shows "cleanup_loop strptime t s = evict (expired strptime t (datetimes s)) s"
  using assms
proof (induction "datetimes s" arbitrary: s)
  case Nil
  then show ?case
    by (subst cleanup_loop.simps) (simp add: evict_0 flip: Nil.hyps)
next
  case (Cons d ds)
  have ds: "ds = datetimes (pop_oldest s)"
    using Cons.hyps(2) Cons.prems by (simp add: pop_oldest_evict evict_def flip: Cons.hyps(2))
  have dh: "distinct (all_metrics_data_history (pop_oldest s))"
    using Cons.prems by (simp add: pop_oldest_evict history_evict)
  have "cleanup_loop strptime t (pop_oldest s)
          = evict (expired strptime t (datetimes (pop_oldest s))) (pop_oldest s)"
    by (rule Cons.hyps(1) [OF ds dh])
  also have "\<dots> = evict (expired strptime t ds) (evict 1 s)"
    unfolding ds [symmetric] using Cons.prems by (simp add: pop_oldest_evict)
  also have "\<dots> = evict (Suc (expired strptime t ds)) s"
    by (simp add: evict_evict)
  finally have ih: "cleanup_loop strptime t (pop_oldest s) = evict (Suc (expired strptime t ds)) s" .
  show ?case
    by (subst cleanup_loop.simps) (simp add: ih evict_0 flip: Cons.hyps(2) split: option.splits)
qed

lemma daemon_cleanup_evict:
  assumes "distinct (all_metrics_data_history s)"
  shows "daemon_cleanup_data strptime now s =
           evict (if daemon_mode s then expired strptime (now - 600) (datetimes s) else 0) s"
proof (cases "\<not> daemon_mode s \<or> datetimes s = []")
  case True
  then show ?thesis by (auto simp: daemon_cleanup_data_def evict_0)
next
  case False
  then show ?thesis
    by (simp add: daemon_cleanup_data_def cleanup_loop_evict [OF assms])
qed

subsection \<open>One live cycle, seen from one series\<close>

definition wf_tables :: "MetricManager \<Rightarrow> bool" where
  "wf_tables s = (source_to_metrics_processing s = fst lookup_tables
                  \<and> all_metrics_data_history s = snd lookup_tables)"

lemma store_add_metric:
  "store (add_metric r v s) r' =
     (if r' = r then add_value (initialized s) v (store s r) else store s r')"
  by (simp add: add_metric_eq)

lemma update_all_live:
  assumes "\<not> truthy (replay_file s)"
  shows "update_all s =
           update_metrics_last_value
             (update_pg_cache_hit_ratio
               (update_metrics_replication_lag
                 (update_metrics_per_second_values s)))"
  using assms by (simp add: update_all_def)

lemma update_all_entry:
  assumes live: "\<not> truthy (replay_file s)" and wf: "wf_tables s"
    and mem: "(src, es) \<in> set (fst lookup_tables)" "e \<in> set es"
    and d: "get_metric_source_data s src = Some d"
  shows "store (update_all s) (entry_ref e)
           = last_value_eff s d e (per_second_eff s d e (store s (entry_ref e)))"
proof -
  define u1 where "u1 = update_metrics_per_second_values s"
  define u2 where "u2 = update_metrics_replication_lag u1"
  define u3 where "u3 = update_pg_cache_hit_ratio u2"
  have tbl: "source_to_metrics_processing s = fst lookup_tables"
    using wf by (simp add: wf_tables_def)
  have inE: "entry_ref e \<in> entry_ref ` set (all_entries (fst lookup_tables))"
    using mem by (force simp: all_entries_def)
  have ne: "entry_ref e \<noteq> lag_ref" "entry_ref e \<noteq> ratio_ref"
    using inE lag_not_entry ratio_not_entry by auto
  have o1: "only_store s u1"
    unfolding u1_def by (rule only_store_per_second)
  have o2: "only_store u1 u2"
    unfolding u2_def by (rule only_store_lag)
  have o3: "only_store u2 u3"
    unfolding u3_def by (rule only_store_ratio)
  have o13: "only_store s u3"
    using o1 o2 o3 only_store_trans by blast
  have s1: "store u1 (entry_ref e) = per_second_eff s d e (store s (entry_ref e))"
    unfolding u1_def update_metrics_per_second_values_def tbl
    by (rule process_table_at [OF store_step_per_second distinct_entry_refs mem d])
  have s2: "store u2 (entry_ref e) = store u1 (entry_ref e)"
    using ne by (simp add: u2_def update_metrics_replication_lag_def store_add_metric lag_ref_def)
  have s3: "store u3 (entry_ref e) = store u2 (entry_ref e)"
    using ne by (simp add: u3_def update_pg_cache_hit_ratio_def store_add_metric ratio_ref_def)
  have tbl3: "source_to_metrics_processing u3 = fst lookup_tables"
    using only_store_fields(17) [OF o13] tbl by simp
  have d3: "get_metric_source_data u3 src = Some d"
    using only_store_get_data [OF o13] d by simp
  have "store (update_metrics_last_value u3) (entry_ref e)
          = last_value_eff u3 d e (store u3 (entry_ref e))"
    unfolding update_metrics_last_value_def tbl3
    by (rule process_table_at [OF store_step_last_value distinct_entry_refs mem d3])
  then show ?thesis
    unfolding update_all_live [OF live] u1_def [symmetric] u2_def [symmetric] u3_def [symmetric]
    by (simp add: s1 s2 s3 last_value_eff_def)
qed



definition sweep_count :: "(string \<Rightarrow> datetime option) \<Rightarrow> datetime \<Rightarrow> bool \<Rightarrow> string list \<Rightarrow> nat" where
  "sweep_count strptime now dm dts = (if dm then expired strptime (now - 600) dts else 0)"

definition clock_after :: "(datetime \<Rightarrow> string) \<Rightarrow> datetime \<Rightarrow> MetricManager \<Rightarrow> string list" where
  "clock_after strftime wst s =
     (if initialized s then datetimes s @ [strftime wst] else datetimes s)"

lemma store_inputs_fields:
  "store (store_inputs wst latency a s) = store s"
  "initialized (store_inputs wst latency a s) = initialized s"
  "datetimes (store_inputs wst latency a s) = datetimes s"
  "replay_file (store_inputs wst latency a s) = replay_file s"
  "daemon_mode (store_inputs wst latency a s) = daemon_mode s"
  "mm_connection_source (store_inputs wst latency a s) = mm_connection_source s"
  "worker_start_time (store_inputs wst latency a s) = Some wst"
  "polling_latency (store_inputs wst latency a s) = latency"
  "source_to_metrics_processing (store_inputs wst latency a s) = source_to_metrics_processing s"
  "all_metrics_data_history (store_inputs wst latency a s) = all_metrics_data_history s"
  by (simp_all add: store_inputs_def)

lemma wf_tables_store_inputs: "wf_tables (store_inputs wst latency a s) = wf_tables s"
  by (simp add: wf_tables_def store_inputs_fields)

lemma refresh_data_live:
  assumes live: "\<not> truthy (replay_file s)" and wf: "wf_tables s"
  shows "datetimes (refresh_data strftime strptime now wst latency a s)
           = drop (sweep_count strptime now (daemon_mode s) (clock_after strftime wst s))
               (clock_after strftime wst s)"
    and "store (refresh_data strftime strptime now wst latency a s) r
           = (if r \<in> set (snd lookup_tables)
              then (store (update_all (store_inputs wst latency a s)) r)
                     \<lparr>vals := drop (sweep_count strptime now (daemon_mode s) (clock_after strftime wst s))
                                (vals (store (update_all (store_inputs wst latency a s)) r))\<rparr>
              else store (update_all (store_inputs wst latency a s)) r)"
    and "initialized (refresh_data strftime strptime now wst latency a s)"
    and "wf_tables (refresh_data strftime strptime now wst latency a s)"
    and "replay_file (refresh_data strftime strptime now wst latency a s) = replay_file s"
    and "daemon_mode (refresh_data strftime strptime now wst latency a s) = daemon_mode s"
    and "mm_connection_source (refresh_data strftime strptime now wst latency a s)
           = mm_connection_source s"
proof -
  define s0 where "s0 = store_inputs wst latency a s"
  define k where "k = sweep_count strptime now (daemon_mode s) (clock_after strftime wst s)"
  define u where "u = update_all s0"
  define c where "c = add_metric_datetime strftime u"
  have os: "only_store s0 u"
    unfolding u_def by (rule only_store_update_all)
  note uf = only_store_fields [OF os]
  note sf = store_inputs_fields [of wst latency a s, folded s0_def]
  have c_eq: "c = u\<lparr>datetimes := clock_after strftime wst s\<rparr>"
    using live unfolding c_def add_metric_datetime_def clock_after_def
    by (simp add: uf sf)
  have hist: "all_metrics_data_history c = snd lookup_tables"
    using wf by (simp add: c_eq uf sf wf_tables_def)
  have dist: "distinct (all_metrics_data_history c)"
    unfolding hist by (rule distinct_history)
  have "refresh_data strftime strptime now wst latency a s
          = (daemon_cleanup_data strptime now c)\<lparr>initialized := True\<rparr>"
    by (simp add: refresh_data_def c_def u_def s0_def)
  also have "daemon_cleanup_data strptime now c = evict k c"
    unfolding daemon_cleanup_evict [OF dist]
    by (simp add: k_def sweep_count_def c_eq uf sf)
  finally have r: "refresh_data strftime strptime now wst latency a s
                     = (evict k c)\<lparr>initialized := True\<rparr>" .
  show "datetimes (refresh_data strftime strptime now wst latency a s)
           = drop (sweep_count strptime now (daemon_mode s) (clock_after strftime wst s))
               (clock_after strftime wst s)"
    by (simp add: r evict_def c_eq k_def)
  show "store (refresh_data strftime strptime now wst latency a s) r
           = (if r \<in> set (snd lookup_tables)
              then (store (update_all (store_inputs wst latency a s)) r)
                     \<lparr>vals := drop (sweep_count strptime now (daemon_mode s) (clock_after strftime wst s))
                                (vals (store (update_all (store_inputs wst latency a s)) r))\<rparr>
              else store (update_all (store_inputs wst latency a s)) r)"
    using hist by (simp add: r evict_def c_eq u_def k_def s0_def)
  show "initialized (refresh_data strftime strptime now wst latency a s)"
    by (simp add: r)
  show "wf_tables (refresh_data strftime strptime now wst latency a s)"
    using wf by (simp add: r evict_def c_eq wf_tables_def uf sf)
  show "replay_file (refresh_data strftime strptime now wst latency a s) = replay_file s"
    by (simp add: r evict_def c_eq uf sf)
  show "daemon_mode (refresh_data strftime strptime now wst latency a s) = daemon_mode s"
    by (simp add: r evict_def c_eq uf sf)
  show "mm_connection_source (refresh_data strftime strptime now wst latency a s)
           = mm_connection_source s"
    by (simp add: r evict_def c_eq uf sf)
qed

subsection \<open>One series through a live cycle\<close>




lemma series_cycle:
  assumes live: "\<not> truthy (replay_file s)" and wf: "wf_tables s"
    and mem: "(src, es) \<in> set (fst lookup_tables)" "(n, r, c) \<in> set es"
    and d: "get_metric_source_data (store_inputs wst latency a s) src = Some d"
  shows "store (refresh_data strftime strptime now wst latency a s) r =
     (let m = (per_second_effect (mm_connection_source s) latency (initialized s)
                 (get0 d n) n c (store s r))\<lparr>last_value := Some (get0 d n)\<rparr>;
          k = sweep_count strptime now (daemon_mode s) (clock_after strftime wst s)
      in if r \<in> set (snd lookup_tables) then m\<lparr>vals := drop k (vals m)\<rparr> else m)"
proof -
  define s0 where "s0 = store_inputs wst latency a s"
  have live0: "\<not> truthy (replay_file s0)" and wf0: "wf_tables s0"
    using live wf by (simp_all add: s0_def store_inputs_fields wf_tables_store_inputs)
  have "store (update_all s0) (entry_ref (n, r, c))
          = last_value_eff s0 d (n, r, c) (per_second_eff s0 d (n, r, c) (store s0 (entry_ref (n, r, c))))"
    by (rule update_all_entry [OF live0 wf0 mem d [folded s0_def]])
  then have u: "store (update_all s0) r =
      (per_second_effect (mm_connection_source s) latency (initialized s)
                 (get0 d n) n c (store s r))\<lparr>last_value := Some (get0 d n)\<rparr>"
    by (simp add: entry_ref_def last_value_eff_def per_second_eff_def s0_def store_inputs_fields)
  show ?thesis
    unfolding refresh_data_live(2) [OF live wf] s0_def [symmetric] u
    by (simp add: Let_def)
qed

definition cycle_db ::
  "(datetime \<Rightarrow> string) \<Rightarrow> (string \<Rightarrow> datetime option) \<Rightarrow> datetime \<Rightarrow> datetime \<Rightarrow> rat
     \<Rightarrow> raw_data \<Rightarrow> MetricManager \<Rightarrow> MetricManager" where
  "cycle_db strftime strptime now wst latency db s =
     refresh_data strftime strptime now wst latency (no_args\<lparr>arg_database_stats := db\<rparr>) s"

lemma xact_commit_entry:
  "\<exists>es. (DATABASE_STATS, es) \<in> set (fst lookup_tables)
        \<and> (''xact_commit'', (''pg_transactions'', ''xact_commit''), all_pg_sources) \<in> set es"
  by (simp add: lookup_tables_def tables_value entries_of_def)

lemma xact_commit_history: "(''pg_transactions'', ''xact_commit'') \<in> set (snd lookup_tables)"
  by (simp add: lookup_tables_def tables_value)

lemma database_stats_inputs:
  "get_metric_source_data (store_inputs wst latency a s) DATABASE_STATS
     = Some (database_stats s ++ arg_database_stats a)"
  by (simp add: get_metric_source_data_def store_inputs_def)

lemma xact_commit_cycle:
  assumes live: "\<not> truthy (replay_file s)" and wf: "wf_tables s"
    and cs: "mm_connection_source s = postgresql" and dm: "\<not> daemon_mode s"
  shows "store (cycle_db strftime strptime now wst latency [''xact_commit'' \<mapsto> v] s)
           (''pg_transactions'', ''xact_commit'') =
         (per_second_effect postgresql latency (initialized s) v ''xact_commit'' all_pg_sources
            (store s (''pg_transactions'', ''xact_commit'')))\<lparr>last_value := Some v\<rparr>"
proof -
  obtain es where es: "(DATABASE_STATS, es) \<in> set (fst lookup_tables)"
      "(''xact_commit'', (''pg_transactions'', ''xact_commit''), all_pg_sources) \<in> set es"
    using xact_commit_entry by blast
  show ?thesis
    unfolding cycle_db_def series_cycle [OF live wf es database_stats_inputs]
    using cs dm xact_commit_history
    by (simp add: Let_def sweep_count_def no_args_def get0_def)
qed

lemma cycle_db_keeps:
  assumes live: "\<not> truthy (replay_file s)" and wf: "wf_tables s"
  shows "\<not> truthy (replay_file (cycle_db strftime strptime now wst latency db s))"
    and "wf_tables (cycle_db strftime strptime now wst latency db s)"
    and "mm_connection_source (cycle_db strftime strptime now wst latency db s) = mm_connection_source s"
    and "daemon_mode (cycle_db strftime strptime now wst latency db s) = daemon_mode s"
    and "initialized (cycle_db strftime strptime now wst latency db s)"
  unfolding cycle_db_def using refresh_data_live [OF live wf] live by simp_all

lemma init_live:
  "replay_file (MetricManager_init rf dm) = rf"
  "daemon_mode (MetricManager_init rf dm) = dm"
  "mm_connection_source (MetricManager_init rf dm) = postgresql"
  "\<not> initialized (MetricManager_init rf dm)"
  "wf_tables (MetricManager_init rf dm)"
  by (simp_all add: MetricManager_init_def reset_def Let_def wf_tables_def lookup_tables_def)

lemma xact_commit_initial:
  "initial_MetricData (''pg_transactions'', ''xact_commit'') = mk_MetricData True True"
  by (simp add: initial_MetricData_def no_history_metrics_def gauge_metrics_def)


subsection \<open>Checked division and a store with given samples\<close>

datatype py_error =
    ZeroDivisionError | IndexError | AttributeError | NameError
  | OSError | ZstdError | UnicodeDecodeError | JSONDecodeError | JSONEncodeError






subsection \<open>The clock and the series stay aligned\<close>
























subsection \<open>Live sessions\<close>

text \<open>
  The readings one poll cycle hands to \<open>refresh_data\<close>, and a live session: a reset
  followed by any number of cycles.
\<close>

record cycle_input =
  ci_strftime :: "datetime \<Rightarrow> string"
  ci_strptime :: "string \<Rightarrow> datetime option"
  ci_now :: datetime
  ci_worker_start_time :: datetime
  ci_polling_latency :: rat
  ci_args :: refresh_args

definition cycle :: "cycle_input \<Rightarrow> MetricManager \<Rightarrow> MetricManager" where
  "cycle ci s =
     refresh_data (ci_strftime ci) (ci_strptime ci) (ci_now ci) (ci_worker_start_time ci)
       (ci_polling_latency ci) (ci_args ci) s"

definition session :: "cycle_input list \<Rightarrow> MetricManager \<Rightarrow> MetricManager" where
  "session inputs s = fold cycle inputs (reset s)"










section \<open>Replay (ReplayManager.py)\<close>

text \<open>
  Session variables map a name to a number or a string; the dictionary keeps insertion
  order, so it is an association list.
\<close>

datatype setting = IntSetting int | StrSetting string

type_synonym variables = "(string \<times> setting) list"

type_synonym thread_data = "(string \<times> setting) list"

text \<open>
  \<open>ProcesslistThread\<close>: only the \<open>thread_data\<close> it wraps is kept; the formatted
  fields are display values computed from it.
\<close>

datatype ProcesslistThread = ProcesslistThread (thread_data: thread_data)

text \<open>The dictionary \<open>_serialize_metrics\<close> returns.\<close>

record serialized_metrics =
  sm_datetimes :: "string list"
  sm_metrics :: "(string \<times> (string \<times> int list) list) list"

text \<open>
  One record of the replay file, as a dictionary: a key may be absent from a loaded
  record (\<open>None\<close>), and \<open>capture_state\<close> writes all of them. Records of a replay file
  are taken to be dictionaries of this shape.
\<close>

record replay_dict =
  rd_timestamp :: "string option"
  rd_system_utilization :: "raw_data option"
  rd_global_variables :: "variables option"
  rd_processlist :: "(string \<times> thread_data) list option"
  rd_replication_status :: "raw_data option"
  rd_connection_stats :: "raw_data option"
  rd_database_stats :: "raw_data option"
  rd_metric_manager :: "serialized_metrics option"
  rd_replay_polling_latency :: "rat option"

text \<open>The dataclass \<open>PostgreSQLReplayData\<close>.\<close>

record PostgreSQLReplayData =
  ev_timestamp :: string
  ev_system_utilization :: raw_data
  ev_global_variables :: variables
  ev_processlist :: "(string \<times> ProcesslistThread) list"
  ev_replication_status :: raw_data
  ev_connection_stats :: raw_data
  ev_database_stats :: raw_data
  ev_metric_manager :: "serialized_metrics option"

text \<open>
  \<open>ReplayManager\<close>: the loaded records, the playback cursor, and the text written so far
  to the compressed stream (\<open>None\<close> when no recording was set up).
\<close>

record ReplayManager =
  replay_data :: "replay_dict list"
  current_replay_id :: nat
  compressed_writer :: "string option"

subsection \<open>Redaction\<close>

definition lower_char :: "char \<Rightarrow> char" where
  "lower_char c =
     (case map_of (zip ''ABCDEFGHIJKLMNOPQRSTUVWXYZ'' ''abcdefghijklmnopqrstuvwxyz'') c of
        None \<Rightarrow> c
      | Some l \<Rightarrow> l)"

text \<open>\<open>k.lower()\<close> on the ASCII letters.\<close>

definition lower :: "string \<Rightarrow> string" where
  "lower k = map lower_char k"

text \<open>\<open>p in k\<close> on strings: \<open>p\<close> occurs in \<open>k\<close> as a contiguous substring.\<close>

fun contains :: "string \<Rightarrow> string \<Rightarrow> bool" where
  "contains [] p = (p = [])"
| "contains (c # cs) p = (take (length p) (c # cs) = p \<or> contains cs p)"

definition exclude_patterns :: "string list" where
  "exclude_patterns = [''ssl'', ''password'', ''key'']"

definition sensitive :: "string \<Rightarrow> bool" where
  "sensitive k = list_ex (\<lambda>p. contains (lower k) p) exclude_patterns"

definition filter_variables :: "variables \<Rightarrow> variables" where
  "filter_variables vars = filter (\<lambda>(k, v). \<not> sensitive k) vars"

subsection \<open>Recording\<close>

definition serialize_processlist :: "(string \<times> ProcesslistThread) list \<Rightarrow> (string \<times> thread_data) list" where
  "serialize_processlist threads = map (\<lambda>(thread_id, thread). (thread_id, thread_data thread)) threads"

definition serialize_metrics :: "MetricManager \<Rightarrow> serialized_metrics" where
  "serialize_metrics mm =
     \<lparr>sm_datetimes = datetimes mm,
      sm_metrics =
        filter (\<lambda>(metric_name, metric_dict). metric_dict \<noteq> [])
          (map (\<lambda>(metric_name, inst).
                  (metric_name, map (\<lambda>attr_name. (attr_name, vals (store mm (metric_name, attr_name))))
                                    (metric_attrs inst)))
               (metrics mm))\<rparr>"

text \<open>The part of \<open>Hastin\<close> that recording and replay read and write.\<close>

record Hastin =
  record_for_replay :: bool
  h_connection_source :: ConnectionSource
  pause_refresh :: bool
  h_system_utilization :: raw_data
  global_variables :: variables
  processlist_threads :: "(string \<times> ProcesslistThread) list"
  h_replication_status :: raw_data
  h_connection_stats :: raw_data
  h_database_stats :: raw_data
  worker_processing_time :: rat
  metric_manager :: MetricManager

text \<open>The dictionary \<open>capture_state\<close> builds; \<open>now\<close> is the ISO timestamp of the call.\<close>

definition capture_dict :: "string \<Rightarrow> Hastin \<Rightarrow> replay_dict" where
  "capture_dict now h =
     \<lparr>rd_timestamp = Some now,
      rd_system_utilization = Some (h_system_utilization h),
      rd_global_variables = Some (filter_variables (global_variables h)),
      rd_processlist = Some (serialize_processlist (processlist_threads h)),
      rd_replication_status = Some (h_replication_status h),
      rd_connection_stats = Some (h_connection_stats h),
      rd_database_stats = Some (h_database_stats h),
      rd_metric_manager = Some (serialize_metrics (metric_manager h)),
      rd_replay_polling_latency = Some (worker_processing_time h)\<rparr>"

text \<open>
  \<open>capture_state\<close>. The serializer \<open>orjson.dumps\<close> is a parameter that may raise, and
  \<open>write_fails\<close> says whether writing to the compressor raises; either failure is logged
  and the frame is skipped. Returns the manager and the log lines.
\<close>

definition capture_state ::
  "(replay_dict \<Rightarrow> py_error + string) \<Rightarrow> bool \<Rightarrow> string \<Rightarrow> Hastin \<Rightarrow> ReplayManager
     \<Rightarrow> ReplayManager \<times> string list" where
  "capture_state dumps write_fails now h rm =
     (if \<not> record_for_replay h then (rm, [])
      else case dumps (capture_dict now h) of
             Inl err \<Rightarrow> (rm, [''Failed to write replay data''])
           | Inr line \<Rightarrow>
               (case compressed_writer rm of
                  None \<Rightarrow> (rm, [''Failed to write replay data''])
                | Some written \<Rightarrow>
                    if write_fails then (rm, [''Failed to write replay data''])
                    else (rm\<lparr>compressed_writer := Some (written @ line @ [CHR 0x0A])\<rparr>, [])))"

subsection \<open>Playback\<close>

text \<open>\<open>d.get(key, default)\<close> on an optional key.\<close>

definition get_or :: "'a option \<Rightarrow> 'a \<Rightarrow> 'a" where
  "get_or v dflt = (case v of None \<Rightarrow> dflt | Some x \<Rightarrow> x)"

definition to_replay_data :: "replay_dict \<Rightarrow> PostgreSQLReplayData" where
  "to_replay_data data =
     \<lparr>ev_timestamp = get_or (rd_timestamp data) [],
      ev_system_utilization = get_or (rd_system_utilization data) Map.empty,
      ev_global_variables = get_or (rd_global_variables data) [],
      ev_processlist =
        map (\<lambda>(thread_id, td). (thread_id, ProcesslistThread td)) (get_or (rd_processlist data) []),
      ev_replication_status = get_or (rd_replication_status data) Map.empty,
      ev_connection_stats = get_or (rd_connection_stats data) Map.empty,
      ev_database_stats = get_or (rd_database_stats data) Map.empty,
      ev_metric_manager = rd_metric_manager data\<rparr>"

definition get_next_refresh_interval :: "ReplayManager \<Rightarrow> PostgreSQLReplayData option \<times> ReplayManager" where
  "get_next_refresh_interval rm =
     (if current_replay_id rm \<ge> length (replay_data rm) then (None, rm)
      else (Some (to_replay_data (replay_data rm ! current_replay_id rm)),
            rm\<lparr>current_replay_id := current_replay_id rm + 1\<rparr>))"

subsection \<open>Consecutive next-frame requests\<close>

text \<open>\<open>n\<close> consecutive next-frame requests: the results in order, and the manager after them.\<close>

fun next_frames :: "nat \<Rightarrow> ReplayManager \<Rightarrow> PostgreSQLReplayData option list \<times> ReplayManager" where
  "next_frames 0 rm = ([], rm)"
| "next_frames (Suc n) rm =
     (case get_next_refresh_interval rm of
        (r, rm') \<Rightarrow> (case next_frames n rm' of (rs, rm'') \<Rightarrow> (r # rs, rm'')))"

definition frame_at :: "ReplayManager \<Rightarrow> nat \<Rightarrow> PostgreSQLReplayData option" where
  "frame_at rm i =
     (if i < length (replay_data rm) then Some (to_replay_data (replay_data rm ! i)) else None)"

lemma get_next_fst: "fst (get_next_refresh_interval rm) = frame_at rm (current_replay_id rm)"
  by (simp add: get_next_refresh_interval_def frame_at_def)


lemma get_next_data: "replay_data (snd (get_next_refresh_interval rm)) = replay_data rm"
  by (simp add: get_next_refresh_interval_def)


lemma next_frames_Suc:
  "next_frames (Suc n) rm =
     (frame_at rm (current_replay_id rm) # fst (next_frames n (snd (get_next_refresh_interval rm))),
      snd (next_frames n (snd (get_next_refresh_interval rm))))"
  by (simp add: get_next_fst [symmetric] split: prod.splits)

lemma next_frames_data: "replay_data (snd (next_frames n rm)) = replay_data rm"
proof (induction n arbitrary: rm)
  case 0
  show ?case by simp
next
  case (Suc n)
  show ?case
    unfolding next_frames_Suc by (simp add: Suc.IH get_next_data)
qed




subsection \<open>Substrings and the sensitive names\<close>

lemma take_prefix_iff: "(take (length p) xs = p) = (\<exists>b. xs = p @ b)"
  by (metis append_eq_conv_conj append_take_drop_id)

lemma contains_iff: "contains s p = (\<exists>a b. s = a @ p @ b)"
proof (induction s)
  case Nil
  show ?case by auto
next
  case (Cons c cs)
  have "(\<exists>a b. c # cs = a @ p @ b) = ((\<exists>b. c # cs = p @ b) \<or> (\<exists>a b. cs = a @ p @ b))"
  proof
    assume "\<exists>a b. c # cs = a @ p @ b"
    then obtain a b where ab: "c # cs = a @ p @ b" by blast
    show "(\<exists>b. c # cs = p @ b) \<or> (\<exists>a b. cs = a @ p @ b)"
    proof (cases a)
      case Nil
      with ab show ?thesis by auto
    next
      case (Cons x a')
      with ab have "cs = a' @ p @ b" by simp
      then show ?thesis by blast
    qed
  next
    assume "(\<exists>b. c # cs = p @ b) \<or> (\<exists>a b. cs = a @ p @ b)"
    then show "\<exists>a b. c # cs = a @ p @ b"
    proof
      assume "\<exists>b. c # cs = p @ b"
      then obtain b where "c # cs = [] @ p @ b" by auto
      then show ?thesis by blast
    next
      assume "\<exists>a b. cs = a @ p @ b"
      then obtain a b where "c # cs = (c # a) @ p @ b" by auto
      then show ?thesis by blast
    qed
  qed
  then show ?case
    using Cons.IH by (simp only: contains.simps take_prefix_iff)
qed

lemma sensitive_iff:
  "sensitive k = (\<exists>p \<in> set exclude_patterns. \<exists>a b. lower k = a @ p @ b)"
  by (simp only: sensitive_def list_ex_iff contains_iff)

lemma lower_examples:
  "lower ''ssl_cert_file'' = ''ssl_cert_file''"
  "lower ''SSL_Cert_File'' = ''ssl_cert_file''"
  "lower ''Db_PASSWORD'' = ''db_password''"
  "lower ''api_KEY_id'' = ''api_key_id''"
  by (simp_all add: lower_def lower_char_def)

lemma sensitive_examples:
  "sensitive ''ssl_cert_file''" "sensitive ''SSL_Cert_File''"
  "sensitive ''Db_PASSWORD''" "sensitive ''api_KEY_id''"
  "\<not> sensitive ''max_connections''"
  by (simp_all add: sensitive_def exclude_patterns_def lower_def lower_char_def)

lemma filtered_not_sensitive: "(k, v) \<in> set (filter_variables vars) \<Longrightarrow> \<not> sensitive k"
  by (auto simp: filter_variables_def)

subsection \<open>Loading a replay file\<close>

text \<open>The ASCII characters that \<open>str.strip()\<close> removes.\<close>

definition is_space :: "char \<Rightarrow> bool" where
  "is_space c = (c \<in> set [CHR 0x09, CHR 0x0A, CHR 0x0B, CHR 0x0C, CHR 0x0D,
                             CHR 0x1C, CHR 0x1D, CHR 0x1E, CHR 0x1F, CHR 0x20])"

definition py_strip :: "string \<Rightarrow> string" where
  "py_strip s = rev (dropWhile is_space (rev (dropWhile is_space s)))"

text \<open>\<open>s.split("\n")\<close>.\<close>

fun split_nl :: "string \<Rightarrow> string list" where
  "split_nl [] = [[]]"
| "split_nl (c # cs) =
     (if c = CHR 0x0A then [] # split_nl cs
      else (case split_nl cs of
              [] \<Rightarrow> [[c]]
            | l # ls \<Rightarrow> (c # l) # ls))"

text \<open>
  The \<open>for line in ...\<close> loop: every non-empty line is parsed and appended; the first
  line that does not parse raises.
\<close>

fun load_lines :: "(string \<Rightarrow> py_error + replay_dict) \<Rightarrow> string list \<Rightarrow> replay_dict list
      \<Rightarrow> py_error + replay_dict list" where
  "load_lines loads [] acc = Inr acc"
| "load_lines loads (line # rest) acc =
     (if line \<noteq> [] then
        (case loads line of
           Inl err \<Rightarrow> Inl err
         | Inr d \<Rightarrow> load_lines loads rest (acc @ [d]))
      else load_lines loads rest acc)"

text \<open>
  The body of the \<open>try\<close> block. \<open>file\<close> is what opening and reading the file gives,
  \<open>decompress\<close> the zstd stream reader, \<open>decode\<close> the UTF-8 decoding and \<open>loads\<close> is
  \<open>orjson.loads\<close>; each may raise.
\<close>

definition load_body ::
  "(string \<Rightarrow> py_error + string) \<Rightarrow> (string \<Rightarrow> py_error + string)
     \<Rightarrow> (string \<Rightarrow> py_error + replay_dict) \<Rightarrow> py_error + string
     \<Rightarrow> ReplayManager \<Rightarrow> py_error + ReplayManager" where
  "load_body decompress decode loads file rm =
     (case file of
        Inl err \<Rightarrow> Inl err
      | Inr compressed \<Rightarrow>
          (case decompress compressed of
             Inl err \<Rightarrow> Inl err
           | Inr decompressed_data \<Rightarrow>
               (case decode decompressed_data of
                  Inl err \<Rightarrow> Inl err
                | Inr text \<Rightarrow>
                    (case load_lines loads (split_nl (py_strip text)) (replay_data rm) of
                       Inl err \<Rightarrow> Inl err
                     | Inr ds \<Rightarrow> Inr (rm\<lparr>replay_data := ds\<rparr>)))))"

text \<open>\<open>_load_replay_file\<close>: the manager after the call and the lines it logs.\<close>

definition load_replay_file ::
  "(string \<Rightarrow> py_error + string) \<Rightarrow> (string \<Rightarrow> py_error + string)
     \<Rightarrow> (string \<Rightarrow> py_error + replay_dict) \<Rightarrow> py_error + string
     \<Rightarrow> ReplayManager \<Rightarrow> ReplayManager \<times> string list" where
  "load_replay_file decompress decode loads file rm =
     (case load_body decompress decode loads file rm of
        Inr rm' \<Rightarrow> (rm', [''Loaded replay events''])
      | Inl err \<Rightarrow> (rm\<lparr>replay_data := []\<rparr>, [''Failed to load replay file'']))"

text \<open>\<open>ReplayManager.__init__\<close> for playback of \<open>replay_file\<close>.\<close>

definition ReplayManager_init ::
  "(string \<Rightarrow> py_error + string) \<Rightarrow> (string \<Rightarrow> py_error + string)
     \<Rightarrow> (string \<Rightarrow> py_error + replay_dict) \<Rightarrow> (py_error + string) option
     \<Rightarrow> ReplayManager \<times> string list" where
  "ReplayManager_init decompress decode loads file_to_replay =
     (let rm = \<lparr>replay_data = [], current_replay_id = 0, compressed_writer = None\<rparr>
      in case file_to_replay of
           None \<Rightarrow> (rm, [])
         | Some file \<Rightarrow> load_replay_file decompress decode loads file rm)"

lemma load_lines_fails:
  assumes "line \<in> set lines" and "line \<noteq> []" and "loads line = Inl err"
  shows "\<exists>e. load_lines loads lines acc = Inl e"
  using assms(1)
proof (induction lines arbitrary: acc)
  case Nil
  then show ?case by simp
next
  case (Cons l ls)
  show ?case
  proof (cases "l = line")
    case True
    then show ?thesis using assms(2,3) by simp
  next
    case False
    then have "line \<in> set ls" using Cons.prems by simp
    from Cons.IH [OF this] show ?thesis
      by (cases "loads l") (auto split: if_splits)
  qed
qed

lemma load_lines_ok:
  assumes "\<forall>line \<in> set lines. line \<noteq> [] \<longrightarrow> (\<exists>d. loads line = Inr d)"
  shows "load_lines loads lines acc
           = Inr (acc @ map (\<lambda>line. projr (loads line)) (filter (\<lambda>line. line \<noteq> []) lines))"
  using assms
proof (induction lines arbitrary: acc)
  case Nil
  show ?case by simp
next
  case (Cons l ls)
  then show ?case by (cases "loads l") auto
qed

text \<open>A parser that accepts only the empty object, for a concrete run of the loader.\<close>

definition toy_loads :: "string \<Rightarrow> py_error + replay_dict" where
  "toy_loads line =
     (if line = ''{}''
      then Inr \<lparr>rd_timestamp = None, rd_system_utilization = None, rd_global_variables = None,
                rd_processlist = None, rd_replication_status = None, rd_connection_stats = None,
                rd_database_stats = None, rd_metric_manager = None,
                rd_replay_polling_latency = None\<rparr>
      else Inl JSONDecodeError)"

lemma toy_split: "split_nl (py_strip [CHR ''{'', CHR ''}'', CHR 0x0A, CHR ''x'', CHR 0x0A])
                    = [''{}'', ''x'']"
  by (simp add: py_strip_def is_space_def)

subsection \<open>Replaying a frame (WorkerManager.run_worker_replay)\<close>

text \<open>
  The tab of a replay session: its \<open>Hastin\<close>, its replay manager, whether its worker was
  cancelled, and the notifications shown.
\<close>

record Tab =
  hastin :: Hastin
  replay_manager :: ReplayManager
  replay_manual_control :: bool
  worker_cancelled :: bool
  notifications :: "string list"

text \<open>
  \<open>replay_event_data.get("replay_polling_latency", 0)\<close>: \<open>PostgreSQLReplayData\<close> is a
  dataclass and declares no attribute \<open>get\<close>, so looking the attribute up raises
  \<open>AttributeError\<close> for every event, key and default.
\<close>

definition dataclass_get :: "PostgreSQLReplayData \<Rightarrow> string \<Rightarrow> rat \<Rightarrow> py_error + rat" where
  "dataclass_get ev key dflt = Inl AttributeError"

text \<open>
  The inner loop that restores one instance: each serialized array replaces the values of
  the \<open>MetricData\<close> attribute of that name, and \<open>metric_values[-1]\<close> raises on an empty
  array after the values were assigned. A raised error comes with the store as it is then.
\<close>

fun restore_instance :: "string \<Rightarrow> MetricInstance \<Rightarrow> (string \<times> int list) list \<Rightarrow> MetricManager
      \<Rightarrow> py_error option \<times> MetricManager" where
  "restore_instance iname inst [] mm = (None, mm)"
| "restore_instance iname inst ((attr_name, metric_values) # rest) mm =
     (if attr_name \<in> set (metric_attrs inst) then
        (if metric_values = []
         then (Some IndexError, upd_metric (iname, attr_name) (\<lambda>m. m\<lparr>vals := metric_values\<rparr>) mm)
         else restore_instance iname inst rest
                (upd_metric (iname, attr_name)
                   (\<lambda>m. m\<lparr>vals := metric_values, last_value := Some (last metric_values)\<rparr>) mm))
      else restore_instance iname inst rest mm)"

fun restore_instances :: "(string \<times> (string \<times> int list) list) list \<Rightarrow> MetricManager
      \<Rightarrow> py_error option \<times> MetricManager" where
  "restore_instances [] mm = (None, mm)"
| "restore_instances ((metric_name, metric_data) # rest) mm =
     (case map_of (metrics mm) metric_name of
        None \<Rightarrow> restore_instances rest mm
      | Some inst \<Rightarrow>
          (case restore_instance metric_name inst metric_data mm of
             (Some err, mm') \<Rightarrow> (Some err, mm')
           | (None, mm') \<Rightarrow> restore_instances rest mm'))"

definition restore_metrics :: "serialized_metrics option \<Rightarrow> MetricManager \<Rightarrow> py_error option \<times> MetricManager" where
  "restore_metrics sm mm =
     (case sm of
        None \<Rightarrow> (None, mm\<lparr>datetimes := []\<rparr>)
      | Some m \<Rightarrow> restore_instances (sm_metrics m) (mm\<lparr>datetimes := sm_datetimes m\<rparr>))"

text \<open>
  The \<open>try\<close> block from the first use of the event on: the error raised, if any, and the
  tab as the statements before it left it. \<open>now\<close> and \<open>wst\<close> are the two clock readings.
\<close>

definition replay_event ::
  "(datetime \<Rightarrow> string) \<Rightarrow> (string \<Rightarrow> datetime option) \<Rightarrow> datetime \<Rightarrow> datetime
     \<Rightarrow> PostgreSQLReplayData \<Rightarrow> Tab \<Rightarrow> py_error option \<times> Tab" where
  "replay_event strftime strptime now wst ev tab =
     (let h1 = (hastin tab)\<lparr>h_system_utilization := ev_system_utilization ev,
                             global_variables := ev_global_variables ev\<rparr>
      in case dataclass_get ev ''replay_polling_latency'' 0 of
           Inl err \<Rightarrow> (Some err, tab\<lparr>hastin := h1\<rparr>)
         | Inr latency \<Rightarrow>
             (let h2 = h1\<lparr>worker_processing_time := latency\<rparr>
              in if h_connection_source h2 \<in> {postgresql, rds, aurora} then
                   (let h3 = h2\<lparr>processlist_threads := ev_processlist ev,
                                 h_replication_status := ev_replication_status ev,
                                 h_connection_stats := ev_connection_stats ev,
                                 h_database_stats := ev_database_stats ev\<rparr>;
                        mm1 = refresh_data strftime strptime now wst 0
                                (no_args\<lparr>arg_system_utilization := h_system_utilization h3,
                                          arg_replication_status := h_replication_status h3,
                                          arg_database_stats := h_database_stats h3\<rparr>)
                                (metric_manager h3)
                    in case restore_metrics (ev_metric_manager ev) mm1 of
                         (err, mm2) \<Rightarrow> (err, tab\<lparr>hastin := h3\<lparr>metric_manager := mm2\<rparr>\<rparr>))
                 else (Some NameError, tab\<lparr>hastin := h2\<rparr>)))"

text \<open>
  \<open>run_worker_replay\<close> for an existing tab. \<open>screen_stack\<close> is the length of the
  application's screen stack and \<open>is_active_tab\<close> says whether the tab is the active one.
\<close>

definition run_worker_replay ::
  "(datetime \<Rightarrow> string) \<Rightarrow> (string \<Rightarrow> datetime option) \<Rightarrow> datetime \<Rightarrow> datetime
     \<Rightarrow> bool \<Rightarrow> nat \<Rightarrow> bool \<Rightarrow> Tab \<Rightarrow> Tab" where
  "run_worker_replay strftime strptime now wst manual_control screen_stack is_active_tab tab =
     (let tab1 = tab\<lparr>replay_manual_control := manual_control\<rparr>
      in if 1 < screen_stack \<or> (pause_refresh (hastin tab1) \<and> \<not> manual_control) \<or> \<not> is_active_tab
         then tab1
         else case get_next_refresh_interval (replay_manager tab1) of
                (None, rm) \<Rightarrow> tab1\<lparr>replay_manager := rm, worker_cancelled := True\<rparr>
              | (Some ev, rm) \<Rightarrow>
                  (case replay_event strftime strptime now wst ev (tab1\<lparr>replay_manager := rm\<rparr>) of
                     (None, tab2) \<Rightarrow> tab2
                   | (Some err, tab2) \<Rightarrow>
                       tab2\<lparr>notifications := notifications tab2 @ [''Error during replay''],
                            worker_cancelled := True\<rparr>))"

lemma replay_event_raises:
  "replay_event strftime strptime now wst ev tab =
     (Some AttributeError,
      tab\<lparr>hastin := (hastin tab)\<lparr>h_system_utilization := ev_system_utilization ev,
                                   global_variables := ev_global_variables ev\<rparr>\<rparr>)"
  by (simp add: replay_event_def dataclass_get_def)

lemma run_worker_replay_store:
  "metric_manager (hastin (run_worker_replay strftime strptime now wst mc stack active tab))
     = metric_manager (hastin tab)"
  by (simp add: run_worker_replay_def replay_event_raises Let_def split: prod.splits option.splits)

lemma run_worker_replay_frame:
  "run_worker_replay strftime strptime now wst True 1 True tab =
     (if current_replay_id (replay_manager tab) < length (replay_data (replay_manager tab))
      then tab\<lparr>replay_manual_control := True,
               replay_manager := (replay_manager tab)
                   \<lparr>current_replay_id := current_replay_id (replay_manager tab) + 1\<rparr>,
               hastin := (hastin tab)
                   \<lparr>h_system_utilization :=
                      get_or (rd_system_utilization
                                (replay_data (replay_manager tab) ! current_replay_id (replay_manager tab)))
                             Map.empty,
                    global_variables :=
                      get_or (rd_global_variables
                                (replay_data (replay_manager tab) ! current_replay_id (replay_manager tab)))
                             []\<rparr>,
               notifications := notifications tab @ [''Error during replay''],
               worker_cancelled := True\<rparr>
      else tab\<lparr>replay_manual_control := True, worker_cancelled := True\<rparr>)"
  by (simp add: run_worker_replay_def replay_event_raises Let_def get_next_refresh_interval_def
        to_replay_data_def)


lemma rate_two_cycles:
  "vals (store (cycle_db f2 p2 n2 w2 5 [''xact_commit'' \<mapsto> 150]
                 (cycle_db f1 p1 n1 w1 5 [''xact_commit'' \<mapsto> 100]
                   (MetricManager_init None False)))
          (''pg_transactions'', ''xact_commit'')) = [10]"
proof -
  define s0 where "s0 = MetricManager_init None False"
  define s1 where "s1 = cycle_db f1 p1 n1 w1 5 [''xact_commit'' \<mapsto> 100] s0"
  have l0: "\<not> truthy (replay_file s0)" "wf_tables s0" "mm_connection_source s0 = postgresql"
      "\<not> daemon_mode s0" "\<not> initialized s0"
    by (simp_all add: s0_def init_live truthy_def)
  have l1: "\<not> truthy (replay_file s1)" "wf_tables s1" "mm_connection_source s1 = postgresql"
      "\<not> daemon_mode s1" "initialized s1"
    unfolding s1_def using cycle_db_keeps [OF l0(1,2)] l0 by simp_all
  have m0: "store s0 (''pg_transactions'', ''xact_commit'') = mk_MetricData True True"
    by (simp add: s0_def store_init xact_commit_initial)
  have m1: "store s1 (''pg_transactions'', ''xact_commit'')
              = (mk_MetricData True True)\<lparr>last_value := Some 100\<rparr>"
    unfolding s1_def xact_commit_cycle [OF l0(1,2,3,4)] m0
    by (simp add: per_second_effect_def mk_MetricData_def all_pg_sources_def)
  show ?thesis
    unfolding s0_def [symmetric] s1_def [symmetric] xact_commit_cycle [OF l1(1,2,3,4)] m1
    using l1(5)
    by (simp add: per_second_effect_def derived_value_def mk_MetricData_def all_pg_sources_def
          add_value_def py_round_def Let_def)
qed

subsection \<open>Ad-hoc commands (KeyEventManager.py, PostgreSQL.py)\<close>

text \<open>
  \<open>Database\<close>: the fields the single-flight guard reads and writes. \<open>connected\<close> is
  \<open>is_connected()\<close>, and \<open>cursor_rowcount\<close> is the result the cursor of the last
  statement holds.
\<close>

record Database =
  connected :: bool
  is_running_query :: bool
  last_execute_successful :: bool
  privilege_errors_notified :: "string list"
  cursor_rowcount :: "int option"


text \<open>
  The two halves of one successful attempt: the flag is set before the statement is sent,
  and cleared with the success flag when the server has answered with \<open>rowcount\<close>.
\<close>

definition begin_query :: "Database \<Rightarrow> Database" where
  "begin_query db = db\<lparr>is_running_query := True\<rparr>"









section \<open>Claims\<close>

subsection \<open>C7: the cache-hit-ratio metric\<close>



subsection \<open>C10: initialization gating\<close>

text \<open>
  C10: a freshly reset store, and a freshly constructed one, is not initialized; its first
  complete \<open>refresh_data\<close> cycle, whatever the inputs, the mode and the clock readings,
  leaves the Session Clock empty and every series (gauges, the cache-hit ratio and the
  replication lag included) without a value, and ends with the store initialized. The
  gate itself: on a store that is not initialized \<open>add_metric\<close> and
  \<open>add_metric_datetime\<close> change nothing.
\<close>

theorem first_cycle_stores_nothing:
  "\<not> initialized (reset s)
   \<and> \<not> initialized (MetricManager_init rf dm)
   \<and> datetimes (refresh_data strftime strptime now wst latency a (reset s)) = []
   \<and> (\<forall>r. vals (store (refresh_data strftime strptime now wst latency a (reset s)) r) = [])
   \<and> initialized (refresh_data strftime strptime now wst latency a (reset s))
   \<and> datetimes (refresh_data strftime strptime now wst latency a (MetricManager_init rf dm)) = []
   \<and> (\<forall>r. vals (store (refresh_data strftime strptime now wst latency a (MetricManager_init rf dm)) r) = [])
   \<and> add_metric r v (s\<lparr>initialized := False\<rparr>) = s\<lparr>initialized := False\<rparr>
   \<and> add_metric_datetime strftime (s\<lparr>initialized := False\<rparr>) = s\<lparr>initialized := False\<rparr>"
proof -
  have i: "fresh (MetricManager_init rf dm)"
    unfolding MetricManager_init_def by (rule fresh_reset)
  have a: "add_metric r v (s\<lparr>initialized := False\<rparr>) = s\<lparr>initialized := False\<rparr>"
    by (simp add: add_metric_def)
  have b: "add_metric_datetime strftime (s\<lparr>initialized := False\<rparr>) = s\<lparr>initialized := False\<rparr>"
    by (simp add: add_metric_datetime_def split: option.splits)
  show ?thesis
    using fresh_refresh [OF fresh_reset] fresh_refresh [OF i]
      freshD(1) [OF fresh_reset] freshD(1) [OF i] a b
    by (intro conjI allI) simp_all
qed

subsection \<open>C2: rate derivation\<close>



subsection \<open>C5: CPU boundary smoothing\<close>




subsection \<open>C3: the clock and the history-bearing series\<close>




subsection \<open>C6: the playback cursor\<close>


subsection \<open>C4: redaction\<close>

text \<open>
  C4: \<open>_filter_variables\<close> keeps exactly the variables whose lower-cased name contains
  none of \<open>ssl\<close>, \<open>password\<close>, \<open>key\<close> as a substring, whatever their values. The
  dictionary \<open>capture_state\<close> serializes holds the filtered variables, anything it appends
  to the stream is the serialization of that dictionary, and the frame read back from such
  a dictionary carries the same filtered variables; so \<open>ssl_cert_file\<close>, its case
  variants, and names containing \<open>password\<close> or \<open>key\<close> never appear, with any value.
\<close>

theorem redaction:
  "filter (\<lambda>(k, v). sensitive k) (filter_variables vars) = []
   \<and> set (filter_variables vars) = {(k, v). (k, v) \<in> set vars \<and> \<not> sensitive k}
   \<and> sensitive k = (\<exists>p \<in> set exclude_patterns. \<exists>a b. lower k = a @ p @ b)
   \<and> rd_global_variables (capture_dict now h) = Some (filter_variables (global_variables h))
   \<and> ev_global_variables (to_replay_data (capture_dict now h))
       = filter_variables (global_variables h)
   \<and> (fst (capture_state dumps write_fails now h rm) = rm
       \<or> (\<exists>w line. compressed_writer rm = Some w \<and> dumps (capture_dict now h) = Inr line
             \<and> fst (capture_state dumps write_fails now h rm)
                 = rm\<lparr>compressed_writer := Some (w @ line @ [CHR 0x0A])\<rparr>))
   \<and> (''ssl_cert_file'', v) \<notin> set (filter_variables vars)
   \<and> (''SSL_Cert_File'', v) \<notin> set (filter_variables vars)
   \<and> (''Db_PASSWORD'', v) \<notin> set (filter_variables vars)
   \<and> (''api_KEY_id'', v) \<notin> set (filter_variables vars)"
proof (intro conjI)
  show "filter (\<lambda>(k, v). sensitive k) (filter_variables vars) = []"
    by (auto simp: filter_variables_def filter_empty_conv)
  show "set (filter_variables vars) = {(k, v). (k, v) \<in> set vars \<and> \<not> sensitive k}"
    by (auto simp: filter_variables_def)
  show "sensitive k = (\<exists>p \<in> set exclude_patterns. \<exists>a b. lower k = a @ p @ b)"
    by (rule sensitive_iff)
  show "rd_global_variables (capture_dict now h) = Some (filter_variables (global_variables h))"
    by (simp add: capture_dict_def)
  show "ev_global_variables (to_replay_data (capture_dict now h))
       = filter_variables (global_variables h)"
    by (simp add: capture_dict_def to_replay_data_def get_or_def)
  show "fst (capture_state dumps write_fails now h rm) = rm
       \<or> (\<exists>w line. compressed_writer rm = Some w \<and> dumps (capture_dict now h) = Inr line
             \<and> fst (capture_state dumps write_fails now h rm)
                 = rm\<lparr>compressed_writer := Some (w @ line @ [CHR 0x0A])\<rparr>)"
    by (simp add: capture_state_def split: sum.splits option.splits)
  show "(''ssl_cert_file'', v) \<notin> set (filter_variables vars)"
    using filtered_not_sensitive sensitive_examples(1) by blast
  show "(''SSL_Cert_File'', v) \<notin> set (filter_variables vars)"
    using filtered_not_sensitive sensitive_examples(2) by blast
  show "(''Db_PASSWORD'', v) \<notin> set (filter_variables vars)"
    using filtered_not_sensitive sensitive_examples(3) by blast
  show "(''api_KEY_id'', v) \<notin> set (filter_variables vars)"
    using filtered_not_sensitive sensitive_examples(4) by blast
qed

subsection \<open>C9: a corrupt replay file loads as the empty log\<close>

text \<open>
  C9: \<open>_load_replay_file\<close> returns a manager and its log lines for every input, with no
  exception left to the caller: whenever the body of its \<open>try\<close> block raises, the result
  is the manager with an empty replay log and the logged failure, and the body raises
  whenever opening or reading the file, the decompression, the UTF-8 decoding, or the
  parsing of any non-empty record fails. So the loaded log is empty unless every step
  succeeded.
\<close>

theorem corrupt_load_is_empty:
  "(load_body decompress decode loads file rm = Inl err \<longrightarrow>
      load_replay_file decompress decode loads file rm
        = (rm\<lparr>replay_data := []\<rparr>, [''Failed to load replay file'']))
   \<and> (file = Inl err \<longrightarrow> (\<exists>e. load_body decompress decode loads file rm = Inl e))
   \<and> (file = Inr compressed \<and> decompress compressed = Inl err \<longrightarrow>
        (\<exists>e. load_body decompress decode loads file rm = Inl e))
   \<and> (file = Inr compressed \<and> decompress compressed = Inr data \<and> decode data = Inl err \<longrightarrow>
        (\<exists>e. load_body decompress decode loads file rm = Inl e))
   \<and> (file = Inr compressed \<and> decompress compressed = Inr data \<and> decode data = Inr decoded
        \<and> line \<in> set (split_nl (py_strip decoded)) \<and> line \<noteq> [] \<and> loads line = Inl err \<longrightarrow>
        (\<exists>e. load_body decompress decode loads file rm = Inl e))
   \<and> (replay_data (fst (load_replay_file decompress decode loads file rm)) = []
       \<or> (\<exists>rm'. load_body decompress decode loads file rm = Inr rm'))"
proof (intro conjI impI)
  assume "load_body decompress decode loads file rm = Inl err"
  then show "load_replay_file decompress decode loads file rm
        = (rm\<lparr>replay_data := []\<rparr>, [''Failed to load replay file''])"
    by (simp add: load_replay_file_def)
next
  assume "file = Inl err"
  then show "\<exists>e. load_body decompress decode loads file rm = Inl e"
    by (simp add: load_body_def)
next
  assume "file = Inr compressed \<and> decompress compressed = Inl err"
  then show "\<exists>e. load_body decompress decode loads file rm = Inl e"
    by (simp add: load_body_def)
next
  assume "file = Inr compressed \<and> decompress compressed = Inr data \<and> decode data = Inl err"
  then show "\<exists>e. load_body decompress decode loads file rm = Inl e"
    by (simp add: load_body_def)
next
  assume a: "file = Inr compressed \<and> decompress compressed = Inr data \<and> decode data = Inr decoded
        \<and> line \<in> set (split_nl (py_strip decoded)) \<and> line \<noteq> [] \<and> loads line = Inl err"
  then obtain e where "load_lines loads (split_nl (py_strip decoded)) (replay_data rm) = Inl e"
    using load_lines_fails [of line "split_nl (py_strip decoded)" loads err "replay_data rm"] by blast
  with a show "\<exists>e. load_body decompress decode loads file rm = Inl e"
    by (simp add: load_body_def)
next
  show "replay_data (fst (load_replay_file decompress decode loads file rm)) = []
       \<or> (\<exists>rm'. load_body decompress decode loads file rm = Inr rm')"
    by (cases "load_body decompress decode loads file rm") (simp_all add: load_replay_file_def)
qed

text \<open>
  The theorem on a file whose second record does not parse: the log comes back empty and
  the failure is logged.
\<close>

theorem corrupt_load_is_empty_witness:
  "toy_loads ''x'' = Inl JSONDecodeError
   \<and> load_replay_file Inr Inr toy_loads (Inr [CHR ''{'', CHR ''}'', CHR 0x0A, CHR ''x'', CHR 0x0A])
         \<lparr>replay_data = [], current_replay_id = 0, compressed_writer = None\<rparr>
       = (\<lparr>replay_data = [], current_replay_id = 0, compressed_writer = None\<rparr>,
          [''Failed to load replay file''])"
proof -
  let ?t = "[CHR ''{'', CHR ''}'', CHR 0x0A, CHR ''x'', CHR 0x0A]"
  let ?rm = "\<lparr>replay_data = [], current_replay_id = 0, compressed_writer = None\<rparr>"
  have bad: "toy_loads ''x'' = Inl JSONDecodeError"
    by (simp add: toy_loads_def)
  have pre: "Inr ?t = (Inr ?t :: py_error + string) \<and> Inr ?t = (Inr ?t :: py_error + string)
        \<and> Inr ?t = (Inr ?t :: py_error + string)
        \<and> ''x'' \<in> set (split_nl (py_strip ?t)) \<and> ''x'' \<noteq> [] \<and> toy_loads ''x'' = Inl JSONDecodeError"
    using bad by (simp add: toy_split)
  note inst = corrupt_load_is_empty [of Inr Inr toy_loads "Inr ?t" "?rm" JSONDecodeError
        "?t" "?t" "?t" "''x''"]
  from inst pre obtain e where e: "load_body Inr Inr toy_loads (Inr ?t) ?rm = Inl e"
    by blast
  have "load_body Inr Inr toy_loads (Inr ?t) ?rm = Inl JSONDecodeError"
    by (simp add: load_body_def toy_split toy_loads_def)
  with inst have "load_replay_file Inr Inr toy_loads (Inr ?t) ?rm
        = (?rm\<lparr>replay_data := []\<rparr>, [''Failed to load replay file''])"
    by blast
  then show ?thesis
    using bad by simp
qed

subsection \<open>C1: record and replay\<close>

text \<open>
  C1 does not hold of the code. \<open>run_worker_replay\<close> calls \<open>.get\<close> on the
  \<open>PostgreSQLReplayData\<close> dataclass before it reaches \<open>refresh_data\<close> and the loop that
  restores the clock and the series, so every frame ends in the \<open>except\<close> branch: the
  Metric Store of the replaying tab is never changed. A live session that saw
  \<open>xact_commit\<close> = 100 then 150 at 5-second cycles records the series \<open>[10]\<close> in its
  second frame; after both frames are replayed into a freshly constructed store the
  series is still empty.
\<close>

theorem replay_does_not_restore_store:
  "metric_manager (hastin (run_worker_replay strftime strptime now wst mc stack active tab))
     = metric_manager (hastin tab)
   \<and> replay_event strftime strptime now wst ev tab =
       (Some AttributeError,
        tab\<lparr>hastin := (hastin tab)\<lparr>h_system_utilization := ev_system_utilization ev,
                                     global_variables := ev_global_variables ev\<rparr>\<rparr>)
   \<and> vals (store (cycle_db f2 p2 n2 w2 5 [''xact_commit'' \<mapsto> 150]
                   (cycle_db f1 p1 n1 w1 5 [''xact_commit'' \<mapsto> 100]
                     (MetricManager_init None False)))
            (''pg_transactions'', ''xact_commit'')) = [10]
   \<and> vals (store
        (metric_manager (hastin
           (run_worker_replay strftime strptime now wst True 1 True
             (run_worker_replay strftime strptime now wst True 1 True
               (tab\<lparr>hastin := (hastin tab)\<lparr>metric_manager := MetricManager_init (Some ''session.zst'') False\<rparr>,
                     replay_manager :=
                       \<lparr>replay_data =
                          [capture_dict t0 (h\<lparr>metric_manager :=
                              cycle_db f1 p1 n1 w1 5 [''xact_commit'' \<mapsto> 100]
                                (MetricManager_init None False)\<rparr>),
                           capture_dict t1 (h\<lparr>metric_manager :=
                              cycle_db f2 p2 n2 w2 5 [''xact_commit'' \<mapsto> 150]
                                (cycle_db f1 p1 n1 w1 5 [''xact_commit'' \<mapsto> 100]
                                  (MetricManager_init None False))\<rparr>)],
                        current_replay_id = 0, compressed_writer = None\<rparr>\<rparr>)))))
        (''pg_transactions'', ''xact_commit'')) = []"
proof (intro conjI)
  show "metric_manager (hastin (run_worker_replay strftime strptime now wst mc stack active tab))
     = metric_manager (hastin tab)"
    by (rule run_worker_replay_store)
  show "replay_event strftime strptime now wst ev tab =
       (Some AttributeError,
        tab\<lparr>hastin := (hastin tab)\<lparr>h_system_utilization := ev_system_utilization ev,
                                     global_variables := ev_global_variables ev\<rparr>\<rparr>)"
    by (rule replay_event_raises)
  show "vals (store (cycle_db f2 p2 n2 w2 5 [''xact_commit'' \<mapsto> 150]
                   (cycle_db f1 p1 n1 w1 5 [''xact_commit'' \<mapsto> 100]
                     (MetricManager_init None False)))
            (''pg_transactions'', ''xact_commit'')) = [10]"
    by (rule rate_two_cycles)
  show "vals (store
        (metric_manager (hastin
           (run_worker_replay strftime strptime now wst True 1 True
             (run_worker_replay strftime strptime now wst True 1 True
               (tab\<lparr>hastin := (hastin tab)\<lparr>metric_manager := MetricManager_init (Some ''session.zst'') False\<rparr>,
                     replay_manager :=
                       \<lparr>replay_data =
                          [capture_dict t0 (h\<lparr>metric_manager :=
                              cycle_db f1 p1 n1 w1 5 [''xact_commit'' \<mapsto> 100]
                                (MetricManager_init None False)\<rparr>),
                           capture_dict t1 (h\<lparr>metric_manager :=
                              cycle_db f2 p2 n2 w2 5 [''xact_commit'' \<mapsto> 150]
                                (cycle_db f1 p1 n1 w1 5 [''xact_commit'' \<mapsto> 100]
                                  (MetricManager_init None False))\<rparr>)],
                        current_replay_id = 0, compressed_writer = None\<rparr>\<rparr>)))))
        (''pg_transactions'', ''xact_commit'')) = []"
    unfolding run_worker_replay_store
    by (simp add: store_init xact_commit_initial mk_MetricData_def)
qed

subsection \<open>C8: single-flight ad-hoc commands\<close>




end
